theory Spec2Isabelle
  imports Main "HOL-Library.AList"
begin

section \<open>Errors and diagnostics\<close>

text \<open>
  Go errors are values.  An error built with \<open>fmt.Errorf(format, args...)\<close> is kept as
  its format string and its arguments, so that no number has to be rendered; an error
  handed back by the API client, by the SSH client or by the operating system is opaque
  and identified by its text.  \<open>ErrInstanceIDMismatch\<close> is the package-level error value
  the container host operations return.  \<open>TimeoutError\<close> and \<open>UnexpectedStateError\<close> are
  the two errors the plugin SDK's wait loop produces by itself.
\<close>

datatype error =
    ErrInstanceIDMismatch
  | SdkError string
  | TimeoutError
  | UnexpectedStateError string
  | Errorf string "arg list"
and arg = ArgS string | ArgD int | ArgE error | ArgB bool

text \<open>
  A failed type assertion is a run-time panic: the operation does not return.
  \<open>InterfaceConversion\<close> is the panic of \<open>x.(string)\<close> on a nil interface value.
\<close>

datatype panic = InterfaceConversion

datatype severity = Error | Warning

datatype msg = Lit string | ErrorString error | Sprintf string "arg list"

record diagnostic =
  Severity :: severity
  Summary :: msg
  Detail :: msg

text \<open>\<open>diag.FromErr(err)\<close>: one diagnostic of severity Error whose summary is the error's text.\<close>

definition FromErr :: "error \<Rightarrow> diagnostic list" where
  "FromErr e = [\<lparr>Severity = Error, Summary = ErrorString e, Detail = Lit ''''\<rparr>]"

section \<open>Helpers on sets and tag maps\<close>

text \<open>
  A \<open>schema.Set\<close> of strings reaches the code as the slice \<open>Set.List()\<close> gives; a Go
  \<open>map[string]string\<close> is an association list with distinct keys, and \<open>range\<close> visits
  its entries in the order of the list, which stands for the arbitrary order of Go.
\<close>

type_synonym tagmap = "(string \<times> string) list"

text \<open>
  Modelled from the spec: the helper \<open>difference\<close> is called by the update and read
  paths but its body is not among the source files.  The specification describes it as
  a pure set-difference helper: given two string slices, the elements present in the
  first and absent in the second (additions are \<open>difference new old\<close>, removals are
  \<open>difference old new\<close>).
\<close>

definition difference :: "string list \<Rightarrow> string list \<Rightarrow> string list" where
  "difference a b = filter (\<lambda>x. x \<notin> set b) a"

text \<open>\<open>normalizeTags\<close>: the loop skips the key "billing" and empty values and stores the rest.\<close>

definition normalizeTags :: "tagmap \<Rightarrow> tagmap" where
  "normalizeTags tags =
     fold (\<lambda>(k, v) normalized.
             if k = ''billing'' \<or> v = '''' then normalized
             else AList.update k v normalized) tags []"

section \<open>Resource data, the remote side and the trace of calls\<close>

text \<open>
  \<open>schema.ResourceData\<close> is one Go type for every resource; the record holds the
  attributes the modelled operations read or write, each with the type its schema
  declares.  \<open>Id\<close> is what \<open>d.Id()\<close> returns and \<open>d.SetId\<close> stores.  The
  list \<open>commands\<close> is the \<open>[]interface{}\<close> that \<open>d.Get\<close> returns: an element is a
  string or nil (\<open>None\<close>), and nil is what the plugin SDK hands over for a command
  written as the empty string.
\<close>

record provisionFile =
  Source :: string
  Content :: string
  Destination :: string

record ResourceData =
  Id :: string
  name :: string
  instance_role :: string
  instance_type :: string
  volume_type :: string
  iops :: int
  protect :: bool
  encrypt_volumes :: bool
  volumes :: int
  volume_size :: int
  security_groups :: "string list"
  user_groups :: "string list"
  bastion_host :: string
  user :: string
  private_key :: string
  commands :: "string option list"
  fileField :: "provisionFile list"
  subnet_type :: string
  subnet :: string
  private_ip :: string
  public_ip :: string
  role :: string
  vpc :: string
  zone :: string
  launch_time :: string
  block_devices :: "string list"
  tags :: tagmap
  ConnInfo :: tagmap
  scopes :: "string list"
  default_scopes :: "string list"
  tenant_id :: string

text \<open>The structs of the Cartel client the code reads.\<close>

record InstanceDetails =
  InstanceID :: string
  NameTag :: string
  PrivateAddress :: string
  PublicAddress :: string
  Protection :: bool
  BlockDevices :: "string list"
  Role :: string
  LaunchTime :: string
  SecurityGroups :: "string list"
  LdapGroups :: "string list"
  InstanceType :: string
  Vpc :: string
  Zone :: string
  Subnet :: string
  Tags :: tagmap

record CreateResponse =
  ch_InstanceID :: string
  ch_IPAddress :: string
  Description :: string

datatype Response = Response (StatusCode: int)

text \<open>
  \<open>client.Create\<close> returns \<open>(ch, resp, err)\<close>.  With \<open>err == nil\<close> the client hands
  back a response body, which the code dereferences without a check; with an error,
  both \<open>ch\<close> and \<open>resp\<close> may be nil.
\<close>

datatype create_result =
    CreateOk CreateResponse
  | CreateErr "CreateResponse option" "Response option" error

text \<open>The options \<open>resourceContainerHostCreate\<close> passes to \<open>client.Create\<close>.\<close>

record CreateOptions =
  opt_SecurityGroups :: "string list"
  opt_UserGroups :: "string list"
  opt_VolumeType :: string
  opt_IOPs :: int
  opt_InstanceType :: string
  opt_Volumes :: int
  opt_VolumeSize :: int
  opt_VolumeEncryption :: bool
  opt_Protect :: bool
  opt_InstanceRole :: string
  opt_SubnetType :: string
  opt_Tags :: tagmap
  opt_InSubnet :: string

text \<open>\<open>easyssh.MakeConfig\<close> with its bastion \<open>DefaultConfig\<close> (the proxy function is left out).\<close>

record DefaultConfig =
  dc_User :: string
  dc_Server :: string
  dc_Port :: string
  dc_Key :: string

record MakeConfig =
  User :: string
  Server :: string
  Port :: string
  Key :: string
  Bastion :: DefaultConfig

text \<open>
  Every call that leaves the provider is recorded, in order.  The events of the remote
  write, of a remote command and of the details lookup also keep what the call returned.
  \<open>EvOpen\<close> and \<open>EvStat\<close> are reads of the local file system; all others go over the
  network.
\<close>

datatype event =
    EvCreate string CreateOptions
  | EvDestroy string
  | EvGetAllInstances
  | EvGetDeploymentState string
  | EvGetDetails string "error + InstanceDetails"
  | EvAddTags "string list" tagmap
  | EvAddUserGroups "string list" "string list"
  | EvRemoveUserGroups "string list" "string list"
  | EvAddSecurityGroups "string list" "string list"
  | EvRemoveSecurityGroups "string list" "string list"
  | EvSetProtection string bool
  | EvOpen string
  | EvStat string
  | EvWriteFile string string "error option"
  | EvRun string string nat "error option"
  | EvRemoveScopes string "string list" "string list"
  | EvAddScopes string "string list" "string list"
  | EvRevoke string string

fun is_network :: "event \<Rightarrow> bool" where
  "is_network (EvOpen p) = False"
| "is_network (EvStat p) = False"
| "is_network ev = True"

fun is_destroy :: "event \<Rightarrow> bool" where
  "is_destroy (EvDestroy n) = True"
| "is_destroy ev = False"

fun is_create :: "event \<Rightarrow> bool" where
  "is_create (EvCreate n opts) = True"
| "is_create ev = False"

fun is_write :: "event \<Rightarrow> bool" where
  "is_write (EvWriteFile s dst r) = True"
| "is_write ev = False"

fun is_run :: "event \<Rightarrow> bool" where
  "is_run (EvRun s c t r) = True"
| "is_run ev = False"

text \<open>
  The answers of everything outside the provider: the configured clients, the remote
  APIs, the SSH session and the local file system.  An answer may depend on the moment
  of the call, which is the number of calls made before it (\<open>clock\<close>), so that the
  deployment state can change between polls and a file can disappear between two opens.
  \<open>polls_before_timeout\<close> is the number of refreshes that fit into
  \<open>d.Timeout(schema.TimeoutCreate)\<close>.
\<close>

type_synonym clock = nat

record env =
  CartelClient :: "error option"
  client_BastionHost :: string
  Create :: "clock \<Rightarrow> string \<Rightarrow> CreateOptions \<Rightarrow> create_result"
  Destroy :: "clock \<Rightarrow> string \<Rightarrow> error option"
  GetAllInstances :: "clock \<Rightarrow> error + InstanceDetails list"
  GetDeploymentState :: "clock \<Rightarrow> string \<Rightarrow> (Response option \<times> error) + string"
  GetDetails :: "clock \<Rightarrow> string \<Rightarrow> error + InstanceDetails"
  AddTags :: "clock \<Rightarrow> string list \<Rightarrow> tagmap \<Rightarrow> error option"
  AddUserGroups :: "clock \<Rightarrow> string list \<Rightarrow> string list \<Rightarrow> error option"
  RemoveUserGroups :: "clock \<Rightarrow> string list \<Rightarrow> string list \<Rightarrow> error option"
  AddSecurityGroups :: "clock \<Rightarrow> string list \<Rightarrow> string list \<Rightarrow> error option"
  RemoveSecurityGroups :: "clock \<Rightarrow> string list \<Rightarrow> string list \<Rightarrow> error option"
  SetProtection :: "clock \<Rightarrow> string \<Rightarrow> bool \<Rightarrow> error option"
  os_Open :: "clock \<Rightarrow> string \<Rightarrow> error option"
  file_Stat :: "clock \<Rightarrow> string \<Rightarrow> error option"
  ssh_WriteFile :: "clock \<Rightarrow> string \<Rightarrow> error option"
  ssh_Run :: "clock \<Rightarrow> string \<Rightarrow> error option"
  polls_before_timeout :: nat
  IAMClient :: "error option"
  RemoveScopes :: "clock \<Rightarrow> string \<Rightarrow> string list \<Rightarrow> string list \<Rightarrow> error option"
  PKIClient :: "error option"
  LogicalPath :: "string \<Rightarrow> error + string"
  RevokeCertificateBySerial :: "clock \<Rightarrow> string \<Rightarrow> string \<Rightarrow> error + int"

text \<open>An operation runs on the resource data and extends the trace.\<close>

record state =
  rd :: ResourceData
  trace :: "event list"

definition now :: "state \<Rightarrow> clock" where
  "now st = length (trace st)"

definition emit :: "event \<Rightarrow> state \<Rightarrow> state" where
  "emit ev st = st\<lparr>trace := trace st @ [ev]\<rparr>"

definition SetId :: "string \<Rightarrow> state \<Rightarrow> state" where
  "SetId v st = st\<lparr>rd := (rd st)\<lparr>Id := v\<rparr>\<rparr>"

section \<open>Container host: collecting files and commands\<close>

definition commandsField :: string where
  "commandsField = ''commands''"

text \<open>
  \<open>collectCommands\<close> copies the list and never reports a diagnostic.  Its loop converts
  every element with the unchecked assertion \<open>list[i].(string)\<close>, which panics on a nil
  element; \<open>appendCommands\<close> is that loop.
\<close>

fun appendCommands :: "string option list \<Rightarrow> string list \<Rightarrow> panic + string list" where
  "appendCommands [] cmds = Inr cmds"
| "appendCommands (None # list) cmds = Inl InterfaceConversion"
| "appendCommands (Some c # list) cmds = appendCommands list (cmds @ [c])"

definition collectCommands :: "ResourceData \<Rightarrow> panic + (string list \<times> diagnostic list)" where
  "collectCommands d =
     (case appendCommands (commands d) [] of
        Inl p \<Rightarrow> Inl p
      | Inr cmds \<Rightarrow> Inr (cmds, []))"

text \<open>
  The body of the loop of \<open>collectFilesToCreate\<close> for one file block: each \<open>continue\<close>
  leaves \<open>files\<close> as it is and adds a diagnostic; the last line appends the file.
\<close>

definition collectFile ::
  "env \<Rightarrow> provisionFile \<Rightarrow> provisionFile list \<times> diagnostic list \<times> state
     \<Rightarrow> provisionFile list \<times> diagnostic list \<times> state" where
  "collectFile env f = (\<lambda>(files, diags, st).
     if Source f = '''' \<and> Content f = '''' then
       (files,
        diags @ [\<lparr>Severity = Error, Summary = Lit ''conflict in file block'',
                  Detail = Sprintf ''file %s has neither 'source' or 'content', set one''
                             [ArgS (Destination f)]\<rparr>],
        st)
     else if Source f \<noteq> '''' \<and> Content f \<noteq> '''' then
       (files,
        diags @ [\<lparr>Severity = Error, Summary = Lit ''conflict in file block'',
                  Detail = Sprintf
                    ''file %s has conflicting 'source' and 'content', choose only one''
                    [ArgS (Destination f)]\<rparr>],
        st)
     else if Source f \<noteq> '''' then
       (let st1 = emit (EvOpen (Source f)) st in
        case os_Open env (now st) (Source f) of
          Some srcErr \<Rightarrow>
            (files,
             diags @ [\<lparr>Severity = Error, Summary = Lit ''issue with source'',
                       Detail = Sprintf ''file %s: %v'' [ArgS (Source f), ArgE srcErr]\<rparr>],
             st1)
        | None \<Rightarrow>
            (let st2 = emit (EvStat (Source f)) st1 in
             case file_Stat env (now st1) (Source f) of
               Some statErr \<Rightarrow>
                 (files,
                  diags @ [\<lparr>Severity = Error, Summary = Lit ''issue with source stat'',
                            Detail = Sprintf ''file %s: %v''
                                       [ArgS (Source f), ArgE statErr]\<rparr>],
                  st2)
             | None \<Rightarrow> (files @ [f], diags, st2)))
     else (files @ [f], diags, st))"

definition collectFilesToCreate ::
  "env \<Rightarrow> state \<Rightarrow> provisionFile list \<times> diagnostic list \<times> state" where
  "collectFilesToCreate env st = fold (collectFile env) (fileField (rd st)) ([], [], st)"

section \<open>Container host: creation, polling and bootstrap\<close>

definition createOptions :: "ResourceData \<Rightarrow> CreateOptions" where
  "createOptions d =
     \<lparr>opt_SecurityGroups = security_groups d,
      opt_UserGroups = user_groups d,
      opt_VolumeType = volume_type d,
      opt_IOPs = iops d,
      opt_InstanceType = instance_type d,
      opt_Volumes = volumes d,
      opt_VolumeSize = volume_size d,
      opt_VolumeEncryption = encrypt_volumes d,
      opt_Protect = protect d,
      opt_InstanceRole = instance_role d,
      opt_SubnetType = (if subnet_type d = '''' then ''private'' else subnet_type d),
      opt_Tags = tags d,
      opt_InSubnet = subnet d\<rparr>"

text \<open>\<open>findInstanceByName\<close>: the first listed instance whose name tag is the name, if any.\<close>

definition findInstanceByName ::
  "env \<Rightarrow> string \<Rightarrow> state \<Rightarrow> InstanceDetails option \<times> state" where
  "findInstanceByName env nm st =
     (let st1 = emit EvGetAllInstances st in
      case GetAllInstances env (now st) of
        Inl err \<Rightarrow> (None, st1)
      | Inr instances \<Rightarrow> (find (\<lambda>i. NameTag i = nm) instances, st1))"

text \<open>
  The branch of \<open>resourceContainerHostCreate\<close> taken when the creation call failed with
  a response and either no body or a status of 500 and above.
\<close>

definition recoverInstance ::
  "env \<Rightarrow> string \<Rightarrow> Response \<Rightarrow> error \<Rightarrow> state
     \<Rightarrow> (diagnostic list + string \<times> string) \<times> state" where
  "recoverInstance env tagName resp err st =
     (case findInstanceByName env tagName st of
        (Some details, st1) \<Rightarrow> (Inr (InstanceID details, PrivateAddress details), st1)
      | (None, st1) \<Rightarrow>
          (Inl (FromErr (Errorf ''create error (status=%d): %w''
                           [ArgD (StatusCode resp), ArgE err])),
           emit (EvDestroy tagName) st1))"

text \<open>
  From \<open>client.Create\<close> to the assignment of \<open>instanceID\<close> and \<open>ipAddress\<close>: either the
  diagnostics of an early return, or the identifier and address creation goes on with.
\<close>

definition createInstance ::
  "env \<Rightarrow> state \<Rightarrow> (diagnostic list + string \<times> string) \<times> state" where
  "createInstance env st =
     (let tagName = name (rd st);
          st1 = emit (EvCreate tagName (createOptions (rd st))) st in
      case Create env (now st) tagName (createOptions (rd st)) of
        CreateOk ch \<Rightarrow> (Inr (ch_InstanceID ch, ch_IPAddress ch), st1)
      | CreateErr ch resp err \<Rightarrow>
          (case resp of
             None \<Rightarrow>
               (Inl (FromErr (Errorf ''create error (resp=nil): %w'' [ArgE err])),
                emit (EvDestroy tagName) st1)
           | Some r \<Rightarrow>
               (case ch of
                  None \<Rightarrow> recoverInstance env tagName r err st1
                | Some c \<Rightarrow>
                    if StatusCode r \<ge> 500 then recoverInstance env tagName r err st1
                    else
                      (Inl (FromErr
                              (Errorf ''create error (description=[%s], code=[%d]): %w''
                                 [ArgS (Description c), ArgD (StatusCode r), ArgE err])),
                       emit (EvDestroy tagName) st1))))"

text \<open>\<open>InstanceStateRefreshFunc\<close>: one fetch of the deployment state.\<close>

definition InstanceStateRefreshFunc ::
  "env \<Rightarrow> string \<Rightarrow> string list \<Rightarrow> state \<Rightarrow> (error + string) \<times> state" where
  "InstanceStateRefreshFunc env nameTag failStates st =
     (let st1 = emit (EvGetDeploymentState nameTag) st in
      case GetDeploymentState env (now st) nameTag of
        Inl (resp, err) \<Rightarrow> (Inl err, st1)
      | Inr s \<Rightarrow>
          if s \<in> set failStates then
            (Inl (Errorf ''failed to reach target state, reason: %s'' [ArgS s]), st1)
          else (Inr s, st1))"

text \<open>
  Modelled from the spec: \<open>WaitForStateContext\<close> is the wait loop of the plugin SDK and
  is not part of this repository.  It refreshes repeatedly until the refresh fails, the
  state is a target state, the state is neither pending nor a target, or the timeout
  elapses; the timeout is the number of refreshes that fit into it.  The loop always
  returns: with no refresh left the result is the timeout error.
\<close>

fun WaitForStateContext ::
  "string list \<Rightarrow> string list \<Rightarrow> (state \<Rightarrow> (error + string) \<times> state) \<Rightarrow> nat \<Rightarrow> state
     \<Rightarrow> error option \<times> state" where
  "WaitForStateContext pending target refresh 0 st = (Some TimeoutError, st)"
| "WaitForStateContext pending target refresh (Suc n) st =
     (case refresh st of
        (Inl err, st1) \<Rightarrow> (Some err, st1)
      | (Inr s, st1) \<Rightarrow>
          if s \<in> set target then (None, st1)
          else if s \<in> set pending then WaitForStateContext pending target refresh n st1
          else (Some (UnexpectedStateError s), st1))"

text \<open>
  \<open>copyFiles\<close>: the first failing open or stat ends the loop with that error; what the
  remote write returns is discarded.
\<close>

fun copyFiles ::
  "env \<Rightarrow> MakeConfig \<Rightarrow> provisionFile list \<Rightarrow> state \<Rightarrow> error option \<times> state" where
  "copyFiles env ssh [] st = (None, st)"
| "copyFiles env ssh (f # fs) st =
     (if Source f \<noteq> '''' then
        (let st1 = emit (EvOpen (Source f)) st in
         case os_Open env (now st) (Source f) of
           Some srcErr \<Rightarrow> (Some srcErr, st1)
         | None \<Rightarrow>
             (let st2 = emit (EvStat (Source f)) st1 in
              case file_Stat env (now st1) (Source f) of
                Some statErr \<Rightarrow> (Some statErr, st2)
              | None \<Rightarrow>
                  copyFiles env ssh fs
                    (emit (EvWriteFile (Server ssh) (Destination f)
                             (ssh_WriteFile env (now st2) (Destination f))) st2)))
      else
        copyFiles env ssh fs
          (emit (EvWriteFile (Server ssh) (Destination f)
                   (ssh_WriteFile env (now st) (Destination f))) st))"

text \<open>
  The command loop of \<open>resourceContainerHostCreate\<close>: every command runs with a timeout
  of five minutes (300 seconds); the first error ends the loop and is returned wrapped.
\<close>

fun runCommands ::
  "env \<Rightarrow> MakeConfig \<Rightarrow> string list \<Rightarrow> state \<Rightarrow> error option \<times> state" where
  "runCommands env ssh [] st = (None, st)"
| "runCommands env ssh (c # cs) st =
     (let r = ssh_Run env (now st) c;
          st1 = emit (EvRun (Server ssh) c (5 * 60) r) st in
      case r of
        Some err \<Rightarrow> (Some (Errorf ''command [%s]: %w'' [ArgS c, ArgE err]), st1)
      | None \<Rightarrow> runCommands env ssh cs st1)"

section \<open>Container host: read\<close>

text \<open>
  The import branch of \<open>resourceContainerHostRead\<close>: with an empty name the instance is
  looked up by identifier among all instances and the name is taken from it.
\<close>

definition importName :: "env \<Rightarrow> state \<Rightarrow> (error + string) \<times> state" where
  "importName env st =
     (if name (rd st) = '''' then
        (let st1 = emit EvGetAllInstances st in
         case GetAllInstances env (now st) of
           Inl err \<Rightarrow> (Inl (Errorf ''cartel.GetAllInstances: %w'' [ArgE err]), st1)
         | Inr instances \<Rightarrow>
             (let st2 = st1\<lparr>rd := (rd st1)\<lparr>encrypt_volumes := True, volume_size := 0\<rparr>\<rparr> in
              case find (\<lambda>i. InstanceID i = Id (rd st)) instances of
                Some i \<Rightarrow> (Inr (NameTag i), st2\<lparr>rd := (rd st2)\<lparr>name := NameTag i\<rparr>\<rparr>)
              | None \<Rightarrow> (Inr '''', st2)))
      else (Inr (name (rd st)), st))"

text \<open>The attributes \<open>resourceContainerHostRead\<close> copies from the fetched details.\<close>

definition projectDetails :: "InstanceDetails \<Rightarrow> ResourceData \<Rightarrow> ResourceData" where
  "projectDetails ch d =
     d\<lparr>protect := Protection ch,
       volumes := int (length (BlockDevices ch)) - 1,
       role := Role ch,
       launch_time := LaunchTime ch,
       block_devices := BlockDevices ch,
       security_groups := difference (SecurityGroups ch) [''base''],
       user_groups := LdapGroups ch,
       instance_type := InstanceType ch,
       instance_role := Role ch,
       vpc := Vpc ch,
       zone := Zone ch,
       private_ip := PrivateAddress ch,
       public_ip := PublicAddress ch,
       subnet := Subnet ch,
       subnet_type := (if PublicAddress ch \<noteq> '''' then ''public'' else ''private''),
       tags := normalizeTags (Tags ch)\<rparr>"

text \<open>
  \<open>resourceContainerHostRead\<close> from the fetch of the deployment state to its end, for
  the name \<open>tagName\<close>.
\<close>

definition readDeployment :: "env \<Rightarrow> string \<Rightarrow> state \<Rightarrow> diagnostic list \<times> state" where
  "readDeployment env tagName st =
     (let st1 = emit (EvGetDeploymentState tagName) st in
      case GetDeploymentState env (now st) tagName of
        Inl (resp, err) \<Rightarrow>
          (case resp of
             None \<Rightarrow> (FromErr err, st1)
           | Some r \<Rightarrow>
               if StatusCode r = 400 then ([], SetId '''' st1)
               else (FromErr err, st1))
      | Inr s \<Rightarrow>
          if s \<noteq> ''succeeded'' then ([], SetId '''' st1)
          else
            (let r = GetDetails env (now st1) tagName;
                 st2 = emit (EvGetDetails tagName r) st1 in
             case r of
               Inl err \<Rightarrow> (FromErr err, st2)
             | Inr ch \<Rightarrow>
                 if InstanceID ch \<noteq> Id (rd st2) then
                   (FromErr ErrInstanceIDMismatch, st2)
                 else ([], st2\<lparr>rd := projectDetails ch (rd st2)\<rparr>)))"

definition resourceContainerHostRead :: "env \<Rightarrow> state \<Rightarrow> diagnostic list \<times> state" where
  "resourceContainerHostRead env st0 =
     (case CartelClient env of
        Some err \<Rightarrow> (FromErr err, st0)
      | None \<Rightarrow>
          (case importName env st0 of
             (Inl err, st) \<Rightarrow> (FromErr err, st)
           | (Inr tagName, st) \<Rightarrow> readDeployment env tagName st))"

section \<open>Container host: create\<close>

definition sshConfig :: "env \<Rightarrow> ResourceData \<Rightarrow> string \<Rightarrow> MakeConfig" where
  "sshConfig env d privateIP =
     \<lparr>User = user d, Server = privateIP, Port = ''22'', Key = private_key d,
      Bastion = \<lparr>dc_User = user d,
                 dc_Server = (if bastion_host d = '''' then client_BastionHost env
                              else bastion_host d),
                 dc_Port = ''22'', dc_Key = private_key d\<rparr>\<rparr>"

text \<open>
  The end of \<open>resourceContainerHostCreate\<close>, reached when the wait has succeeded: the
  connection info, the SSH configuration, then files, then commands, then the read.
\<close>

definition bootstrapHost ::
  "env \<Rightarrow> string \<Rightarrow> provisionFile list \<Rightarrow> string list \<Rightarrow> state
     \<Rightarrow> diagnostic list \<times> state" where
  "bootstrapHost env ipAddress createFiles cmds st1 =
     (let st2 = st1\<lparr>rd := (rd st1)\<lparr>ConnInfo := [(''type'', ''ssh''), (''host'', ipAddress)]\<rparr>\<rparr>;
          ssh = sshConfig env (rd st2) ipAddress;
          (copyErr, st3) = copyFiles env ssh createFiles st2;
          diags = (case copyErr of
                     Some err \<Rightarrow>
                       [\<lparr>Severity = Warning, Summary = Lit ''failed to copy all files'',
                         Detail = Sprintf ''One or more files failed to copy: %v''
                                    [ArgE err]\<rparr>]
                   | None \<Rightarrow> [])
      in case runCommands env ssh cmds st3 of
           (Some err, st4) \<Rightarrow> (diags @ FromErr err, st4)
         | (None, st4) \<Rightarrow>
             (let (readDiags, st5) = resourceContainerHostRead env st4
              in (diags @ readDiags, st5)))"

text \<open>
  \<open>resourceContainerHostCreate\<close> from \<open>d.SetId(instanceID)\<close> on: the wait for the
  deployment state, with the destroy of the host when the wait fails, then the bootstrap.
\<close>

definition provisionHost ::
  "env \<Rightarrow> string \<Rightarrow> string \<Rightarrow> provisionFile list \<Rightarrow> string list \<Rightarrow> state
     \<Rightarrow> diagnostic list \<times> state" where
  "provisionHost env instanceID ipAddress createFiles cmds st0 =
     (let tagName = name (rd st0);
          st = SetId instanceID st0 in
      case WaitForStateContext [''provisioning'', ''indeterminate''] [''succeeded'']
             (InstanceStateRefreshFunc env tagName [''failed'', ''terminated'', ''shutting-down''])
             (polls_before_timeout env) st of
        (Some err, st1) \<Rightarrow>
          (FromErr (Errorf ''error waiting for instance '%s' to become ready: %s''
                      [ArgS instanceID, ArgE err]),
           emit (EvDestroy tagName) st1)
      | (None, st1) \<Rightarrow> bootstrapHost env ipAddress createFiles cmds st1)"

text \<open>
  \<open>resourceContainerHostCreate\<close> returns its diagnostics with the new state, unless
  \<open>collectCommands\<close> panics, which ends the operation without a result.
\<close>

definition resourceContainerHostCreate ::
  "env \<Rightarrow> state \<Rightarrow> panic + (diagnostic list \<times> state)" where
  "resourceContainerHostCreate env st0 =
     (case CartelClient env of
        Some err \<Rightarrow> Inr (FromErr err, st0)
      | None \<Rightarrow>
          (let (createFiles, fileDiags, st1) = collectFilesToCreate env st0 in
           if fileDiags \<noteq> [] then Inr (fileDiags, st1)
           else
             (case collectCommands (rd st1) of
                Inl p \<Rightarrow> Inl p
              | Inr (cmds, cmdDiags) \<Rightarrow>
                  if cmdDiags \<noteq> [] then Inr (cmdDiags, st1)
                  else if cmds \<noteq> [] \<and> user (rd st1) = '''' then
                    Inr (FromErr (Errorf ''user must be set when '%s' is specified''
                                    [ArgS commandsField]), st1)
                  else if cmds \<noteq> [] \<and> private_key (rd st1) = '''' then
                    Inr (FromErr (Errorf ''privateKey must be set when '%s' is specified''
                                    [ArgS commandsField]), st1)
                  else
                    (case createInstance env st1 of
                       (Inl diags, st2) \<Rightarrow> Inr (diags, st2)
                     | (Inr (instanceID, ipAddress), st2) \<Rightarrow>
                         Inr (provisionHost env instanceID ipAddress createFiles cmds st2)))))"

section \<open>Container host: update and delete\<close>

text \<open>
  A step of an update either fails with the error the client returned or goes on;
  \<open>andThen\<close> is the early \<open>return diag.FromErr(err)\<close> between two steps.
\<close>

definition andThen ::
  "error option \<times> state \<Rightarrow> (state \<Rightarrow> error option \<times> state) \<Rightarrow> error option \<times> state" where
  "andThen r f = (case r of (Some err, st) \<Rightarrow> (Some err, st) | (None, st) \<Rightarrow> f st)"

text \<open>
  \<open>generateTagChange\<close>: keys of the old map that are missing or empty in the new map are
  set to the empty string, then every entry of the new map but "billing" is stored.
\<close>

definition generateTagChange :: "tagmap \<Rightarrow> tagmap \<Rightarrow> tagmap" where
  "generateTagChange old new =
     fold (\<lambda>(k, v) change. if k = ''billing'' then change else AList.update k v change) new
       (fold (\<lambda>(k, v) change.
                case map_of new k of
                  None \<Rightarrow> AList.update k '''' change
                | Some newVal \<Rightarrow> if newVal = '''' then AList.update k '''' change else change)
          old [])"

text \<open>
  The update operations see the prior state \<open>old\<close> next to the planned data in the
  state: \<open>d.GetChange(k)\<close> is the pair of both values, and \<open>d.HasChange(k)\<close> holds when
  they differ (as sets, for set and map attributes).  The string sets
  (\<open>user_groups\<close>, \<open>security_groups\<close>, \<open>scopes\<close>, \<open>default_scopes\<close>) are held as the
  \<open>[]string\<close> that \<open>expandStringList(set.List())\<close> hands to \<open>difference\<close>; the body
  of \<open>expandStringList\<close> is not among the source files either.
\<close>

definition updateTags :: "env \<Rightarrow> ResourceData \<Rightarrow> state \<Rightarrow> error option \<times> state" where
  "updateTags env old st =
     (if set (tags old) \<noteq> set (tags (rd st)) then
        (let change = generateTagChange (tags old) (tags (rd st)) in
         (AddTags env (now st) [name (rd st)] change,
          emit (EvAddTags [name (rd st)] change) st))
      else (None, st))"

definition updateUserGroups :: "env \<Rightarrow> ResourceData \<Rightarrow> state \<Rightarrow> error option \<times> state" where
  "updateUserGroups env old st =
     (if set (user_groups old) \<noteq> set (user_groups (rd st)) then
        (let tagName = name (rd st);
             toAdd = difference (user_groups (rd st)) (user_groups old);
             toRemove = difference (user_groups old) (user_groups (rd st)) in
         andThen
           (if toAdd \<noteq> [] then
              (AddUserGroups env (now st) [tagName] toAdd,
               emit (EvAddUserGroups [tagName] toAdd) st)
            else (None, st))
           (\<lambda>st1. if toRemove \<noteq> [] then
                     (RemoveUserGroups env (now st1) [tagName] toRemove,
                      emit (EvRemoveUserGroups [tagName] toRemove) st1)
                   else (None, st1)))
      else (None, st))"

definition updateSecurityGroups :: "env \<Rightarrow> ResourceData \<Rightarrow> state \<Rightarrow> error option \<times> state" where
  "updateSecurityGroups env old st =
     (if set (security_groups old) \<noteq> set (security_groups (rd st)) then
        (let tagName = name (rd st);
             toAdd = difference (security_groups (rd st)) (security_groups old);
             toRemove = difference (security_groups old) (security_groups (rd st)) in
         andThen
           (if toAdd \<noteq> [] then
              (AddSecurityGroups env (now st) [tagName] toAdd,
               emit (EvAddSecurityGroups [tagName] toAdd) st)
            else (None, st))
           (\<lambda>st1. if toRemove \<noteq> [] then
                     (RemoveSecurityGroups env (now st1) [tagName] toRemove,
                      emit (EvRemoveSecurityGroups [tagName] toRemove) st1)
                   else (None, st1)))
      else (None, st))"

definition updateProtect :: "env \<Rightarrow> ResourceData \<Rightarrow> state \<Rightarrow> error option \<times> state" where
  "updateProtect env old st =
     (if protect old \<noteq> protect (rd st) then
        (SetProtection env (now st) (name (rd st)) (protect (rd st)),
         emit (EvSetProtection (name (rd st)) (protect (rd st))) st)
      else (None, st))"

definition resourceContainerHostUpdate ::
  "env \<Rightarrow> ResourceData \<Rightarrow> state \<Rightarrow> diagnostic list \<times> state" where
  "resourceContainerHostUpdate env old st =
     (case CartelClient env of
        Some err \<Rightarrow> (FromErr err, st)
      | None \<Rightarrow>
          (let tagName = name (rd st);
               r = GetDetails env (now st) tagName;
               st1 = emit (EvGetDetails tagName r) st in
           case r of
             Inl err \<Rightarrow> (FromErr err, st1)
           | Inr ch \<Rightarrow>
               if InstanceID ch \<noteq> Id (rd st1) then (FromErr ErrInstanceIDMismatch, st1)
               else
                 (case andThen
                         (andThen
                            (andThen (updateTags env old st1) (updateUserGroups env old))
                            (updateSecurityGroups env old))
                         (updateProtect env old) of
                    (Some err, st2) \<Rightarrow> (FromErr err, st2)
                  | (None, st2) \<Rightarrow> ([], st2))))"

definition resourceContainerHostDelete :: "env \<Rightarrow> state \<Rightarrow> diagnostic list \<times> state" where
  "resourceContainerHostDelete env st =
     (case CartelClient env of
        Some err \<Rightarrow> (FromErr err, st)
      | None \<Rightarrow>
          (let tagName = name (rd st);
               r = GetDetails env (now st) tagName;
               st1 = emit (EvGetDetails tagName r) st in
           case r of
             Inl err \<Rightarrow> (FromErr err, st1)
           | Inr ch \<Rightarrow>
               if InstanceID ch \<noteq> Id (rd st1) then (FromErr ErrInstanceIDMismatch, st1)
               else
                 (let st2 = emit (EvDestroy tagName) st1 in
                  case Destroy env (now st1) tagName of
                    Some err \<Rightarrow> (FromErr err, st2)
                  | None \<Rightarrow> ([], SetId '''' st2))))"

section \<open>IAM service: update of the scope lists\<close>

text \<open>
  One block of \<open>resourceIAMServiceUpdate\<close>: removals first, whose error is returned;
  additions after, whose result is discarded.  \<open>dflt\<close> tells which of the two arguments
  of the client call carries the scopes.
\<close>

definition updateScopes ::
  "env \<Rightarrow> bool \<Rightarrow> string list \<Rightarrow> string list \<Rightarrow> state \<Rightarrow> error option \<times> state" where
  "updateScopes env dflt old newList st =
     (if set old \<noteq> set newList then
        (let toAdd = difference newList old;
             toRemove = difference old newList in
         andThen
           (if toRemove \<noteq> [] then
              (if dflt then
                 (RemoveScopes env (now st) (Id (rd st)) [] toRemove,
                  emit (EvRemoveScopes (Id (rd st)) [] toRemove) st)
               else
                 (RemoveScopes env (now st) (Id (rd st)) toRemove [],
                  emit (EvRemoveScopes (Id (rd st)) toRemove []) st))
            else (None, st))
           (\<lambda>st1. if toAdd \<noteq> [] then
                     (None, emit (if dflt then EvAddScopes (Id (rd st1)) [] toAdd
                                  else EvAddScopes (Id (rd st1)) toAdd []) st1)
                   else (None, st1)))
      else (None, st))"

definition resourceIAMServiceUpdate ::
  "env \<Rightarrow> ResourceData \<Rightarrow> state \<Rightarrow> diagnostic list \<times> state" where
  "resourceIAMServiceUpdate env old st =
     (case IAMClient env of
        Some err \<Rightarrow> (FromErr err, st)
      | None \<Rightarrow>
          (case andThen (updateScopes env False (scopes old) (scopes (rd st)) st)
                  (\<lambda>st1. updateScopes env True (default_scopes old) (default_scopes (rd st1)) st1) of
             (Some err, st2) \<Rightarrow> (FromErr err, st2)
           | (None, st2) \<Rightarrow> ([], st2)))"

section \<open>PKI certificate: delete\<close>

text \<open>
  \<open>resourcePKICertDelete\<close>: the certificate is revoked by its serial, which is the
  resource identifier; \<open>RevocationTime\<close> is the integer of the revoke response.
\<close>

definition resourcePKICertDelete :: "env \<Rightarrow> state \<Rightarrow> diagnostic list \<times> state" where
  "resourcePKICertDelete env st =
     (case PKIClient env of
        Some err \<Rightarrow> (FromErr err, st)
      | None \<Rightarrow>
          (case LogicalPath env (tenant_id (rd st)) of
             Inl err \<Rightarrow> (FromErr (Errorf ''delete PKI cert logicalPath: %w'' [ArgE err]), st)
           | Inr logicalPath \<Rightarrow>
               (let st1 = emit (EvRevoke logicalPath (Id (rd st))) st in
                case RevokeCertificateBySerial env (now st) logicalPath (Id (rd st)) of
                  Inl err \<Rightarrow> (FromErr (Errorf ''delete PKI cert: %w'' [ArgE err]), st1)
                | Inr RevocationTime \<Rightarrow>
                    if RevocationTime > 0 then ([], SetId '''' st1) else ([], st1))))"

section \<open>Notions used in the statements\<close>

text \<open>The events an operation added, from the state before it and the state after it.\<close>

definition issued :: "state \<Rightarrow> state \<Rightarrow> event list" where
  "issued st st' = drop (length (trace st)) (trace st')"

text \<open>
  What a creation returned, if it returned: its diagnostics and the state it left; a
  creation that panicked returned nothing.  Then the state after a list of calls, and
  the one call a block of an update makes for a list of additions or removals: none when
  the list is empty (\<open>if len(toAdd) > 0 { ... }\<close>).
\<close>

fun diags_of :: "panic + (diagnostic list \<times> state) \<Rightarrow> diagnostic list option" where
  "diags_of (Inl p) = None"
| "diags_of (Inr (diags, st)) = Some diags"

fun state_of :: "panic + (diagnostic list \<times> state) \<Rightarrow> state option" where
  "state_of (Inl p) = None"
| "state_of (Inr (diags, st)) = Some st"

definition emits :: "event list \<Rightarrow> state \<Rightarrow> state" where
  "emits evs st = st\<lparr>trace := trace st @ evs\<rparr>"

definition when_nonempty :: "string list \<Rightarrow> event \<Rightarrow> event list" where
  "when_nonempty xs ev = (if xs \<noteq> [] then [ev] else [])"

text \<open>
  What a list of events wrote and ran, in order: the destination and the result of every
  remote write, and the command, the timeout in seconds and the result of every remote
  command.
\<close>

fun written :: "event list \<Rightarrow> (string \<times> error option) list" where
  "written [] = []"
| "written (EvWriteFile s dst r # evs) = (dst, r) # written evs"
| "written (ev # evs) = written evs"

fun ran :: "event list \<Rightarrow> (string \<times> nat \<times> error option) list" where
  "ran [] = []"
| "ran (EvRun s c t r # evs) = (c, t, r) # ran evs"
| "ran (ev # evs) = ran evs"

text \<open>The diagnostics of \<open>collectFilesToCreate\<close> and the warning of the copy stage, by name.\<close>

abbreviation neitherDiag :: "provisionFile \<Rightarrow> diagnostic" where
  "neitherDiag f \<equiv>
     \<lparr>Severity = Error, Summary = Lit ''conflict in file block'',
      Detail = Sprintf ''file %s has neither 'source' or 'content', set one''
                 [ArgS (Destination f)]\<rparr>"

abbreviation bothDiag :: "provisionFile \<Rightarrow> diagnostic" where
  "bothDiag f \<equiv>
     \<lparr>Severity = Error, Summary = Lit ''conflict in file block'',
      Detail = Sprintf ''file %s has conflicting 'source' and 'content', choose only one''
                 [ArgS (Destination f)]\<rparr>"

abbreviation openDiag :: "provisionFile \<Rightarrow> error \<Rightarrow> diagnostic" where
  "openDiag f e \<equiv>
     \<lparr>Severity = Error, Summary = Lit ''issue with source'',
      Detail = Sprintf ''file %s: %v'' [ArgS (Source f), ArgE e]\<rparr>"

abbreviation statDiag :: "provisionFile \<Rightarrow> error \<Rightarrow> diagnostic" where
  "statDiag f e \<equiv>
     \<lparr>Severity = Error, Summary = Lit ''issue with source stat'',
      Detail = Sprintf ''file %s: %v'' [ArgS (Source f), ArgE e]\<rparr>"

abbreviation copyWarning :: "error \<Rightarrow> diagnostic" where
  "copyWarning e \<equiv>
     \<lparr>Severity = Warning, Summary = Lit ''failed to copy all files'',
      Detail = Sprintf ''One or more files failed to copy: %v'' [ArgE e]\<rparr>"

text \<open>
  The wait of \<open>resourceContainerHostCreate\<close> with its pending, target and failure
  states; the state after \<open>k\<close> polls of the deployment state; and the condition that
  the first \<open>k\<close> polls, counted from a state, all find a pending state.
\<close>

abbreviation waitForHost :: "env \<Rightarrow> string \<Rightarrow> nat \<Rightarrow> state \<Rightarrow> error option \<times> state" where
  "waitForHost env nm n st \<equiv>
     WaitForStateContext [''provisioning'', ''indeterminate''] [''succeeded'']
       (InstanceStateRefreshFunc env nm [''failed'', ''terminated'', ''shutting-down'']) n st"

definition polled :: "string \<Rightarrow> nat \<Rightarrow> state \<Rightarrow> state" where
  "polled nm k st = st\<lparr>trace := trace st @ replicate k (EvGetDeploymentState nm)\<rparr>"

abbreviation pending_until :: "env \<Rightarrow> string \<Rightarrow> state \<Rightarrow> nat \<Rightarrow> bool" where
  "pending_until env nm st k \<equiv>
     \<forall>j<k. GetDeploymentState env (now st + j) nm \<in> {Inr ''provisioning'', Inr ''indeterminate''}"

text \<open>
  An operation that started in \<open>st\<close> has failed after a compensating destroy: its
  result is the diagnostic of an error and the last call it issued is the destroy of the
  named host.
\<close>

abbreviation destroyed_before_error :: "string \<Rightarrow> state \<Rightarrow> diagnostic list \<times> state \<Rightarrow> bool" where
  "destroyed_before_error nm st res \<equiv>
     (\<exists>e. fst res = FromErr e) \<and> (\<exists>pre. issued st (snd res) = pre @ [EvDestroy nm])"

section \<open>Sample inputs\<close>

text \<open>
  Concrete inputs for the runs below: resource data with the zero value of every
  attribute, instance details with a given identifier and name, a remote side where every
  call succeeds and the host \<open>i-1\<close> is deployed, and variations of it in which one
  call fails.  File blocks are listed in the order \<open>Set.List()\<close> gives them, which is
  by the decimal text of their hash codes.
\<close>

definition blank_data :: ResourceData where
  "blank_data =
     \<lparr>Id = '''', name = '''', instance_role = '''', instance_type = '''', volume_type = '''',
      iops = 0, protect = False, encrypt_volumes = False, volumes = 0, volume_size = 0,
      security_groups = [], user_groups = [], bastion_host = '''', user = '''',
      private_key = '''', commands = [], fileField = [], subnet_type = '''', subnet = '''',
      private_ip = '''', public_ip = '''', role = '''', vpc = '''', zone = '''',
      launch_time = '''', block_devices = [], tags = [], ConnInfo = [], scopes = [],
      default_scopes = [], tenant_id = ''''\<rparr>"

definition sample_details :: "string \<Rightarrow> string \<Rightarrow> InstanceDetails" where
  "sample_details i n =
     \<lparr>InstanceID = i, NameTag = n, PrivateAddress = ''10.0.0.5'', PublicAddress = '''',
      Protection = False, BlockDevices = [''/dev/sda1''], Role = ''container-host'',
      LaunchTime = '''', SecurityGroups = [''base''], LdapGroups = [],
      InstanceType = ''m5.large'', Vpc = '''', Zone = '''', Subnet = '''', Tags = []\<rparr>"

definition quiet_env :: env where
  "quiet_env =
     \<lparr>CartelClient = None,
      client_BastionHost = ''bastion'',
      Create = (\<lambda>t n opts. CreateOk \<lparr>ch_InstanceID = ''i-1'', ch_IPAddress = ''10.0.0.5'',
                                        Description = ''''\<rparr>),
      Destroy = (\<lambda>t n. None),
      GetAllInstances = (\<lambda>t. Inr []),
      GetDeploymentState = (\<lambda>t n. Inr ''succeeded''),
      GetDetails = (\<lambda>t n. Inr (sample_details ''i-1'' n)),
      AddTags = (\<lambda>t ns m. None),
      AddUserGroups = (\<lambda>t ns gs. None),
      RemoveUserGroups = (\<lambda>t ns gs. None),
      AddSecurityGroups = (\<lambda>t ns gs. None),
      RemoveSecurityGroups = (\<lambda>t ns gs. None),
      SetProtection = (\<lambda>t n b. None),
      os_Open = (\<lambda>t p. None),
      file_Stat = (\<lambda>t p. None),
      ssh_WriteFile = (\<lambda>t p. None),
      ssh_Run = (\<lambda>t c. None),
      polls_before_timeout = 3,
      IAMClient = None,
      RemoveScopes = (\<lambda>t i ss ds. None),
      PKIClient = None,
      LogicalPath = (\<lambda>t. Inr ''core/pki/api/v1''),
      RevokeCertificateBySerial = (\<lambda>t p s. Inr 1)\<rparr>"

definition start :: "ResourceData \<Rightarrow> state" where
  "start d = \<lparr>rd = d, trace = []\<rparr>"

definition host1 :: state where
  "host1 = start (blank_data\<lparr>Id := ''i-1'', name := ''host1''\<rparr>)"

definition other_env :: env where
  "other_env = quiet_env\<lparr>GetDetails := \<lambda>t n. Inr (sample_details ''i-2'' n)\<rparr>"

text \<open>
  An IAM service and a container host before an update and as planned: every string set
  changes, each listed in the order \<open>Set.List()\<close> gives it.
\<close>

definition service_before :: ResourceData where
  "service_before =
     blank_data\<lparr>Id := ''svc'', scopes := [''a'', ''b'', ''c''],
                 default_scopes := [''openid'', ''profile'']\<rparr>"

definition service_planned :: state where
  "service_planned =
     start (blank_data\<lparr>Id := ''svc'', scopes := [''b'', ''c'', ''d''],
                        default_scopes := [''openid'', ''email'']\<rparr>)"

definition host_before :: ResourceData where
  "host_before =
     blank_data\<lparr>Id := ''i-1'', name := ''host1'', user_groups := [''a'', ''b'', ''c''],
                 security_groups := [''sg-b'', ''sg-c'', ''sg-a'']\<rparr>"

definition host_planned :: state where
  "host_planned =
     start (blank_data\<lparr>Id := ''i-1'', name := ''host1'', user_groups := [''b'', ''c'', ''d''],
                        security_groups := [''sg-b'', ''sg-d'', ''sg-c'']\<rparr>)"

definition bad_file :: provisionFile where
  "bad_file = \<lparr>Source = '''', Content = '''', Destination = ''/tmp/a''\<rparr>"

definition good_file :: provisionFile where
  "good_file = \<lparr>Source = '''', Content = ''hello'', Destination = ''/tmp/b''\<rparr>"

definition source_file :: provisionFile where
  "source_file = \<lparr>Source = ''files/motd'', Content = '''', Destination = ''/etc/motd''\<rparr>"

definition host_plain :: state where
  "host_plain = start (blank_data\<lparr>name := ''host1''\<rparr>)"

definition host_with_files :: state where
  "host_with_files = start (blank_data\<lparr>name := ''host1'', fileField := [good_file, bad_file]\<rparr>)"

definition host_with_commands :: state where
  "host_with_commands =
     start (blank_data\<lparr>name := ''host1'', commands := [Some ''uptime''], private_key := ''key''\<rparr>)"

definition host_with_empty_command :: state where
  "host_with_empty_command = start (blank_data\<lparr>name := ''host1'', commands := [None]\<rparr>)"

definition host_with_content :: state where
  "host_with_content = start (blank_data\<lparr>name := ''host1'', fileField := [good_file]\<rparr>)"

definition host_to_bootstrap :: state where
  "host_to_bootstrap =
     start (blank_data\<lparr>name := ''host1'', user := ''admin'', private_key := ''key'',
                       fileField := [source_file, good_file],
                       commands := [Some ''uptime'', Some ''false'', Some ''date'']\<rparr>)"

definition listed_host :: InstanceDetails where
  "listed_host = (sample_details ''i-9'' ''host1'')\<lparr>PrivateAddress := ''10.0.0.9''\<rparr>"

definition failing_write_env :: env where
  "failing_write_env = quiet_env\<lparr>ssh_WriteFile := \<lambda>t p. Some (SdkError ''scp failed'')\<rparr>"

definition vanishing_file_env :: env where
  "vanishing_file_env =
     quiet_env\<lparr>os_Open := \<lambda>t p. if t < 2 then None else Some (SdkError ''no such file'')\<rparr>"

definition failing_command_env :: env where
  "failing_command_env =
     quiet_env\<lparr>ssh_Run := \<lambda>t c. if c = ''false'' then Some (SdkError ''exit status 1'') else None\<rparr>"

definition no_response_env :: env where
  "no_response_env =
     quiet_env\<lparr>Create := \<lambda>t n opts. CreateErr None None (SdkError ''connection timed out''),
                GetAllInstances := \<lambda>t. Inr [listed_host]\<rparr>"

definition gateway_timeout_env :: env where
  "gateway_timeout_env =
     quiet_env\<lparr>Create := \<lambda>t n opts. CreateErr None (Some (Response 504))
                                       (SdkError ''gateway timeout''),
                GetAllInstances := \<lambda>t. Inr [sample_details ''i-7'' ''other'', listed_host],
                GetDetails := \<lambda>t n. Inr listed_host\<rparr>"

definition failing_state_env :: env where
  "failing_state_env =
     quiet_env\<lparr>GetDeploymentState := \<lambda>t n. if t < 2 then Inr ''provisioning'' else Inr ''failed''\<rparr>"

definition never_ready_env :: env where
  "never_ready_env = quiet_env\<lparr>GetDeploymentState := \<lambda>t n. Inr ''provisioning''\<rparr>"

definition rejecting_env :: env where
  "rejecting_env =
     quiet_env\<lparr>Create := \<lambda>t n opts.
                  CreateErr (Some \<lparr>ch_InstanceID = '''', ch_IPAddress = '''',
                                   Description = ''quota exceeded''\<rparr>)
                    (Some (Response 400)) (SdkError ''bad request'')\<rparr>"

section \<open>Properties of the helpers\<close>

lemma update_fresh_key:
  "k \<notin> fst ` set al \<Longrightarrow> AList.update k v al = al @ [(k, v)]"
  by (induction al) auto

lemma normalize_loop:
  "distinct (map fst ts) \<Longrightarrow> fst ` set ts \<inter> fst ` set acc = {} \<Longrightarrow>
   fold (\<lambda>(k, v) normalized.
           if k = ''billing'' \<or> v = '''' then normalized
           else AList.update k v normalized) ts acc
   = acc @ filter (\<lambda>(k, v). \<not> (k = ''billing'' \<or> v = '''')) ts"
proof (induction ts arbitrary: acc)
  case Nil
  then show ?case by simp
next
  case (Cons kv ts)
  obtain k v where kv: "kv = (k, v)" by (cases kv)
  from Cons.prems have dist: "distinct (map fst ts)" and fresh: "k \<notin> fst ` set ts"
    and acc: "k \<notin> fst ` set acc" and disj: "fst ` set ts \<inter> fst ` set acc = {}"
    using kv by auto
  show ?case
  proof (cases "k = ''billing'' \<or> v = ''''")
    case True
    then show ?thesis using Cons.IH [OF dist disj] kv by simp
  next
    case False
    have "fst ` set ts \<inter> fst ` set (acc @ [(k, v)]) = {}"
      using disj fresh by auto
    from Cons.IH [OF dist this] False acc kv show ?thesis
      by (simp add: update_fresh_key)
  qed
qed

lemma normalizeTags_filter:
  "distinct (map fst ts) \<Longrightarrow>
   normalizeTags ts = filter (\<lambda>(k, v). \<not> (k = ''billing'' \<or> v = '''')) ts"
  using normalize_loop [of ts "[]"] by (simp add: normalizeTags_def)

lemma map_of_filter_entries:
  "distinct (map fst al) \<Longrightarrow>
   map_of (filter (\<lambda>(k, v). P k v) al) k =
     (case map_of al k of None \<Rightarrow> None | Some v \<Rightarrow> if P k v then Some v else None)"
proof (induction al)
  case Nil
  then show ?case by simp
next
  case (Cons kv al)
  obtain k' v' where kv: "kv = (k', v')" by (cases kv)
  from Cons.prems kv have dist: "distinct (map fst al)" and fresh: "k' \<notin> fst ` set al"
    by auto
  from fresh have none: "map_of al k' = None"
    by (simp add: map_of_eq_None_iff)
  show ?case
  proof (cases "k = k'")
    case True
    have "map_of (filter (\<lambda>(k, v). P k v) al) k' = None"
      using Cons.IH [OF dist] none True by simp
    then show ?thesis using True kv by simp
  next
    case False
    then show ?thesis using Cons.IH [OF dist] kv by simp
  qed
qed

text \<open>
  C9.  Tag normalisation drops exactly the entries whose key is "billing" and the entries
  whose value is the empty string and keeps every other entry unchanged: as a list of
  entries the result is the input without those entries, and as a map it is the input
  map restricted to the kept entries, whatever the order of iteration.  In particular
  the tags billing=x, env=prod, empty="" become env=prod.
\<close>

theorem normalizeTags_drops_billing_and_empty:
  assumes "distinct (map fst ts)"
  shows "normalizeTags ts = filter (\<lambda>(k, v). k \<noteq> ''billing'' \<and> v \<noteq> '''') ts \<and>
         map_of (normalizeTags ts) k =
           (case map_of ts k of
              None \<Rightarrow> None
            | Some v \<Rightarrow> if k \<noteq> ''billing'' \<and> v \<noteq> '''' then Some v else None)"
proof -
  have eq: "normalizeTags ts = filter (\<lambda>(k, v). k \<noteq> ''billing'' \<and> v \<noteq> '''') ts"
    using normalizeTags_filter [OF assms] by simp
  have "map_of (normalizeTags ts) k =
           (case map_of ts k of
              None \<Rightarrow> None
            | Some v \<Rightarrow> if k \<noteq> ''billing'' \<and> v \<noteq> '''' then Some v else None)"
    unfolding eq
    using map_of_filter_entries [OF assms, of "\<lambda>k v. k \<noteq> ''billing'' \<and> v \<noteq> ''''" k]
    by simp
  with eq show ?thesis by simp
qed

theorem normalizeTags_example:
  "distinct (map fst [(''billing'', ''x''), (''env'', ''prod''), (''empty'', '''')]) \<and>
   normalizeTags [(''billing'', ''x''), (''env'', ''prod''), (''empty'', '''')]
     = [(''env'', ''prod'')] \<and>
   map_of (normalizeTags [(''billing'', ''x''), (''env'', ''prod''), (''empty'', '''')])
     ''billing'' = None"
  using normalizeTags_drops_billing_and_empty
    [of "[(''billing'', ''x''), (''env'', ''prod''), (''empty'', '''')]" "''billing''"]
  by simp

section \<open>Facts about the state and the trace\<close>

lemma trace_emit [simp]: "trace (emit ev st) = trace st @ [ev]"
  by (simp add: emit_def)

lemma rd_emit [simp]: "rd (emit ev st) = rd st"
  by (simp add: emit_def)

lemma now_emit [simp]: "now (emit ev st) = Suc (now st)"
  by (simp add: emit_def now_def)

lemma trace_SetId [simp]: "trace (SetId v st) = trace st"
  by (simp add: SetId_def)

lemma rd_SetId [simp]: "rd (SetId v st) = (rd st)\<lparr>Id := v\<rparr>"
  by (simp add: SetId_def)

lemma now_SetId [simp]: "now (SetId v st) = now st"
  by (simp add: SetId_def now_def)

lemma issued_self [simp]: "issued st st = []"
  by (simp add: issued_def)

lemma issued_append: "trace st' = trace st @ evs \<Longrightarrow> issued st st' = evs"
  by (simp add: issued_def)

lemmas eval_defs = host1_def other_env_def quiet_env_def start_def blank_data_def
  sample_details_def issued_def now_def emit_def SetId_def Let_def FromErr_def

section \<open>PKI certificate delete\<close>

text \<open>
  C10.  When the PKI client is configured, the logical path resolves and the revoke call
  returns without error, the delete returns no diagnostics, has issued the one revoke
  call, and clears the resource identifier exactly when the returned revocation time is
  greater than zero: with a revocation time of zero (or below) the identifier is what it
  was, although the delete reports success.
\<close>

theorem pki_delete_clears_id_only_after_revocation:
  assumes "PKIClient env = None"
    and "LogicalPath env (tenant_id (rd st)) = Inr p"
    and "RevokeCertificateBySerial env (now st) p (Id (rd st)) = Inr t"
  shows "fst (resourcePKICertDelete env st) = [] \<and>
         Id (rd (snd (resourcePKICertDelete env st))) = (if t > 0 then '''' else Id (rd st)) \<and>
         issued st (snd (resourcePKICertDelete env st)) = [EvRevoke p (Id (rd st))]"
  using assms by (simp add: resourcePKICertDelete_def issued_def Let_def)

theorem pki_delete_zero_revocation_time_keeps_id:
  "fst (resourcePKICertDelete (quiet_env\<lparr>RevokeCertificateBySerial := \<lambda>t p s. Inr 0\<rparr>)
          (start (blank_data\<lparr>Id := ''12:34'', tenant_id := ''t1''\<rparr>))) = [] \<and>
   Id (rd (snd (resourcePKICertDelete
                  (quiet_env\<lparr>RevokeCertificateBySerial := \<lambda>t p s. Inr 0\<rparr>)
                  (start (blank_data\<lparr>Id := ''12:34'', tenant_id := ''t1''\<rparr>))))) = ''12:34'' \<and>
   fst (resourcePKICertDelete quiet_env
          (start (blank_data\<lparr>Id := ''12:34'', tenant_id := ''t1''\<rparr>))) = [] \<and>
   Id (rd (snd (resourcePKICertDelete quiet_env
                  (start (blank_data\<lparr>Id := ''12:34'', tenant_id := ''t1''\<rparr>))))) = ''''"
  using pki_delete_clears_id_only_after_revocation
          [of "quiet_env\<lparr>RevokeCertificateBySerial := \<lambda>t p s. Inr 0\<rparr>"
              "start (blank_data\<lparr>Id := ''12:34'', tenant_id := ''t1''\<rparr>)" "''core/pki/api/v1''" 0]
        pki_delete_clears_id_only_after_revocation
          [of quiet_env
              "start (blank_data\<lparr>Id := ''12:34'', tenant_id := ''t1''\<rparr>)" "''core/pki/api/v1''" 1]
  by (simp add: quiet_env_def start_def blank_data_def now_def)

section \<open>Container host: the identifier check of read, update and delete\<close>

lemma readDeployment_issued:
  "trace (snd (readDeployment env n st)) =
     trace st @ EvGetDeploymentState n #
       (if GetDeploymentState env (now st) n = Inr ''succeeded''
        then [EvGetDetails n (GetDetails env (Suc (now st)) n)] else [])"
  unfolding readDeployment_def Let_def
  by (simp split: sum.split prod.split option.split)

lemma readDeployment_mismatch:
  "GetDeploymentState env (now st) n = Inr ''succeeded'' \<Longrightarrow>
   GetDetails env (Suc (now st)) n = Inr ch \<Longrightarrow> InstanceID ch \<noteq> Id (rd st) \<Longrightarrow>
   readDeployment env n st =
     (FromErr ErrInstanceIDMismatch, emit (EvGetDetails n (Inr ch)) (emit (EvGetDeploymentState n) st))"
  unfolding readDeployment_def Let_def
  by simp


lemma importName_trace:
  "importName env st = (r, st1) \<Longrightarrow>
   Id (rd st1) = Id (rd st) \<and>
   (\<exists>evs. trace st1 = trace st @ evs \<and> set evs \<subseteq> {EvGetAllInstances})"
  unfolding importName_def Let_def
  by (cases "GetAllInstances env (now st)"; cases "name (rd st) = ''''";
      auto split: option.splits)

lemma andThen_trace:
  assumes "\<exists>evs. trace (snd r) = trace st @ evs \<and> P evs"
    and "\<And>st1. \<exists>evs. trace (snd (f st1)) = trace st1 @ evs \<and> P evs"
    and "\<And>xs ys. P xs \<Longrightarrow> P ys \<Longrightarrow> P (xs @ ys)"
  shows "\<exists>evs. trace (snd (andThen r f)) = trace st @ evs \<and> P evs"
proof (cases r)
  case (Pair e st1)
  from assms(1) Pair obtain xs where xs: "trace st1 = trace st @ xs" "P xs" by auto
  show ?thesis
  proof (cases e)
    case None
    from assms(2) [of st1] obtain ys where ys: "trace (snd (f st1)) = trace st1 @ ys" "P ys"
      by auto
    have "trace (snd (andThen r f)) = trace st @ (xs @ ys)"
      using Pair None xs ys by (simp add: andThen_def)
    with assms(3) [OF xs(2) ys(2)] show ?thesis by blast
  next
    case (Some err)
    then show ?thesis using Pair xs by (auto simp: andThen_def)
  qed
qed

lemma updateTags_trace:
  "\<exists>evs. trace (snd (updateTags env old st)) = trace st @ evs \<and> EvGetDetails n r \<notin> set evs"
  by (simp add: updateTags_def Let_def)

lemma updateUserGroups_trace:
  "\<exists>evs. trace (snd (updateUserGroups env old st)) = trace st @ evs \<and> EvGetDetails n r \<notin> set evs"
  by (simp add: updateUserGroups_def andThen_def Let_def split: option.split)

lemma updateSecurityGroups_trace:
  "\<exists>evs. trace (snd (updateSecurityGroups env old st)) = trace st @ evs \<and> EvGetDetails n r \<notin> set evs"
  by (simp add: updateSecurityGroups_def andThen_def Let_def split: option.split)

lemma updateProtect_trace:
  "\<exists>evs. trace (snd (updateProtect env old st)) = trace st @ evs \<and> EvGetDetails n r \<notin> set evs"
  by (simp add: updateProtect_def Let_def)

lemma update_steps_trace:
  "\<exists>evs. trace (snd (andThen
                         (andThen
                            (andThen (updateTags env old st) (updateUserGroups env old))
                            (updateSecurityGroups env old))
                         (updateProtect env old))) = trace st @ evs \<and> EvGetDetails n r \<notin> set evs"
  by (intro andThen_trace [where P = "\<lambda>evs. EvGetDetails n r \<notin> set evs"]
        updateTags_trace updateUserGroups_trace updateSecurityGroups_trace updateProtect_trace)
     simp_all


lemma read_mismatch:
  assumes mem: "EvGetDetails n (Inr ch) \<in> set (issued st (snd (resourceContainerHostRead env st)))"
    and neq: "InstanceID ch \<noteq> Id (rd st)"
  shows "fst (resourceContainerHostRead env st) = FromErr ErrInstanceIDMismatch \<and>
         Id (rd (snd (resourceContainerHostRead env st))) = Id (rd st)"
proof (cases "CartelClient env")
  case (Some err)
  with mem show ?thesis by (simp add: resourceContainerHostRead_def)
next
  case None
  obtain r st1 where imp: "importName env st = (r, st1)" by (cases "importName env st")
  from importName_trace [OF imp] obtain evs where
    id1: "Id (rd st1) = Id (rd st)" and tr1: "trace st1 = trace st @ evs"
    and evs: "set evs \<subseteq> {EvGetAllInstances}" by blast
  show ?thesis
  proof (cases r)
    case (Inl err)
    with None imp have "resourceContainerHostRead env st = (FromErr err, st1)"
      by (simp add: resourceContainerHostRead_def)
    with mem tr1 evs show ?thesis by (auto simp: issued_def)
  next
    case (Inr tagName)
    with None imp have eq: "resourceContainerHostRead env st = readDeployment env tagName st1"
      by (simp add: resourceContainerHostRead_def)
    have "issued st (snd (readDeployment env tagName st1)) =
            evs @ EvGetDeploymentState tagName #
              (if GetDeploymentState env (now st1) tagName = Inr ''succeeded''
               then [EvGetDetails tagName (GetDetails env (Suc (now st1)) tagName)] else [])"
      by (rule issued_append) (simp add: readDeployment_issued tr1)
    with mem eq evs have ok: "GetDeploymentState env (now st1) tagName = Inr ''succeeded''"
      and det: "GetDetails env (Suc (now st1)) tagName = Inr ch"
      by (auto split: if_splits)
    from neq id1 have "InstanceID ch \<noteq> Id (rd st1)" by simp
    from readDeployment_mismatch [OF ok det this] eq id1 show ?thesis by simp
  qed
qed

lemma update_mismatch:
  assumes mem: "EvGetDetails n (Inr ch) \<in> set (issued st (snd (resourceContainerHostUpdate env old st)))"
    and neq: "InstanceID ch \<noteq> Id (rd st)"
  shows "fst (resourceContainerHostUpdate env old st) = FromErr ErrInstanceIDMismatch \<and>
         Id (rd (snd (resourceContainerHostUpdate env old st))) = Id (rd st)"
proof (cases "CartelClient env")
  case (Some err)
  with mem show ?thesis by (simp add: resourceContainerHostUpdate_def)
next
  case None
  let ?r = "GetDetails env (now st) (name (rd st))"
  let ?st1 = "emit (EvGetDetails (name (rd st)) ?r) st"
  show ?thesis
  proof (cases ?r)
    case (Inl err)
    with None have "resourceContainerHostUpdate env old st = (FromErr err, ?st1)"
      by (simp add: resourceContainerHostUpdate_def Let_def)
    with mem Inl show ?thesis by (simp add: issued_def)
  next
    case (Inr ch')
    show ?thesis
    proof (cases "InstanceID ch' \<noteq> Id (rd st)")
      case True
      with None Inr show ?thesis
        by (simp add: resourceContainerHostUpdate_def Let_def)
    next
      case False
      let ?steps = "andThen
                         (andThen
                            (andThen (updateTags env old ?st1) (updateUserGroups env old))
                            (updateSecurityGroups env old))
                         (updateProtect env old)"
      from update_steps_trace [of env old ?st1 n "Inr ch"] obtain evs where
        evs: "trace (snd ?steps) = trace ?st1 @ evs" "EvGetDetails n (Inr ch) \<notin> set evs"
        by blast
      have "snd (resourceContainerHostUpdate env old st) = snd ?steps"
        using None Inr False
        by (simp add: resourceContainerHostUpdate_def Let_def split: prod.split option.split)
      with evs have "issued st (snd (resourceContainerHostUpdate env old st)) =
                       EvGetDetails (name (rd st)) ?r # evs"
        by (simp add: issued_def)
      with mem evs Inr have "ch = ch'" by auto
      with False neq show ?thesis by simp
    qed
  qed
qed

lemma delete_mismatch:
  assumes mem: "EvGetDetails n (Inr ch) \<in> set (issued st (snd (resourceContainerHostDelete env st)))"
    and neq: "InstanceID ch \<noteq> Id (rd st)"
  shows "fst (resourceContainerHostDelete env st) = FromErr ErrInstanceIDMismatch \<and>
         Id (rd (snd (resourceContainerHostDelete env st))) = Id (rd st) \<and>
         EvDestroy (name (rd st)) \<notin> set (issued st (snd (resourceContainerHostDelete env st)))"
proof (cases "CartelClient env")
  case (Some err)
  with mem show ?thesis by (simp add: resourceContainerHostDelete_def)
next
  case None
  let ?r = "GetDetails env (now st) (name (rd st))"
  have tr: "issued st (snd (resourceContainerHostDelete env st)) =
          EvGetDetails (name (rd st)) ?r #
            (case ?r of Inl err \<Rightarrow> [] | Inr c \<Rightarrow>
               if InstanceID c \<noteq> Id (rd st) then [] else [EvDestroy (name (rd st))])"
    using None
    by (simp add: resourceContainerHostDelete_def Let_def issued_def
          split: sum.split option.split)
  with mem have r: "?r = Inr ch" by (auto split: sum.splits if_splits)
  with None neq tr show ?thesis
    by (simp add: resourceContainerHostDelete_def Let_def)
qed

text \<open>
  C1.  For each of the read, update and delete operations of the container host: when
  the operation has looked up the details by name and the lookup returned details whose
  InstanceID differs from the stored resource identifier, the operation returns the
  error ErrInstanceIDMismatch as its only diagnostic and the stored identifier is still
  the one it was (the fetched one is not adopted).
\<close>

theorem instance_id_mismatch_is_an_error:
  assumes "run = resourceContainerHostRead env \<or> run = resourceContainerHostUpdate env old
             \<or> run = resourceContainerHostDelete env"
    and "EvGetDetails n (Inr ch) \<in> set (issued st (snd (run st)))"
    and "InstanceID ch \<noteq> Id (rd st)"
  shows "fst (run st) = FromErr ErrInstanceIDMismatch \<and> Id (rd (snd (run st))) = Id (rd st)"
  using assms read_mismatch update_mismatch delete_mismatch by blast



theorem instance_id_mismatch_example:
  "fst (resourceContainerHostRead other_env host1) = FromErr ErrInstanceIDMismatch \<and>
   Id (rd (snd (resourceContainerHostRead other_env host1))) = ''i-1'' \<and>
   fst (resourceContainerHostUpdate other_env blank_data host1) = FromErr ErrInstanceIDMismatch \<and>
   Id (rd (snd (resourceContainerHostUpdate other_env blank_data host1))) = ''i-1'' \<and>
   fst (resourceContainerHostDelete other_env host1) = FromErr ErrInstanceIDMismatch \<and>
   Id (rd (snd (resourceContainerHostDelete other_env host1))) = ''i-1''"
proof -
  have m1: "EvGetDetails ''host1'' (Inr (sample_details ''i-2'' ''host1''))
              \<in> set (issued host1 (snd (resourceContainerHostRead other_env host1)))"
    by (simp add: resourceContainerHostRead_def importName_def readDeployment_def eval_defs)
  have m2: "EvGetDetails ''host1'' (Inr (sample_details ''i-2'' ''host1''))
              \<in> set (issued host1 (snd (resourceContainerHostUpdate other_env blank_data host1)))"
    by (simp add: resourceContainerHostUpdate_def eval_defs)
  have m3: "EvGetDetails ''host1'' (Inr (sample_details ''i-2'' ''host1''))
              \<in> set (issued host1 (snd (resourceContainerHostDelete other_env host1)))"
    by (simp add: resourceContainerHostDelete_def eval_defs)
  have neq: "InstanceID (sample_details ''i-2'' ''host1'') \<noteq> Id (rd host1)"
    by (simp add: eval_defs)
  have id: "Id (rd host1) = ''i-1''" by (simp add: eval_defs)
  from instance_id_mismatch_is_an_error [of "resourceContainerHostRead other_env" other_env blank_data, OF _ m1 neq]
       instance_id_mismatch_is_an_error [of "resourceContainerHostUpdate other_env blank_data" other_env blank_data, OF _ m2 neq]
       instance_id_mismatch_is_an_error [of "resourceContainerHostDelete other_env" other_env blank_data, OF _ m3 neq]
       id
  show ?thesis by simp
qed

section \<open>Container host: what read does when the state or the details are missing\<close>

text \<open>
  C7, as stated, fails.  With the deployment state "succeeded" and a details lookup that
  returns an error, the read returns that error and the stored identifier is kept.
\<close>

theorem read_unobtainable_details_is_an_error:
  "fst (resourceContainerHostRead (quiet_env\<lparr>GetDetails := \<lambda>t n. Inl (SdkError ''details unavailable'')\<rparr>) host1)
     = FromErr (SdkError ''details unavailable'') \<and>
   Id (rd (snd (resourceContainerHostRead (quiet_env\<lparr>GetDetails := \<lambda>t n. Inl (SdkError ''details unavailable'')\<rparr>) host1)))
     = ''i-1''"
  by (simp add: resourceContainerHostRead_def importName_def readDeployment_def eval_defs)

lemma read_by_name:
  "CartelClient env = None \<Longrightarrow> name (rd st) \<noteq> '''' \<Longrightarrow>
   resourceContainerHostRead env st = readDeployment env (name (rd st)) st"
  by (simp add: resourceContainerHostRead_def importName_def)

text \<open>
  C7, amended.  For a read by name with a configured client: if the lookup of the
  deployment state fails with HTTP status 400, or the fetched state is any value other
  than "succeeded", the read clears the stored identifier and returns no diagnostic; if
  the lookup of the state fails in another way, or the state is "succeeded" and the
  details lookup fails, the read returns that error and keeps the stored identifier.
\<close>

theorem read_clears_id_only_on_missing_or_unsuccessful_state:
  assumes client: "CartelClient env = None" and byname: "name (rd st) \<noteq> ''''"
  shows "(GetDeploymentState env (now st) (name (rd st)) = Inl (Some r, err) \<and> StatusCode r = 400 \<longrightarrow>
            fst (resourceContainerHostRead env st) = [] \<and>
            Id (rd (snd (resourceContainerHostRead env st))) = '''') \<and>
         (GetDeploymentState env (now st) (name (rd st)) = Inr s \<and> s \<noteq> ''succeeded'' \<longrightarrow>
            fst (resourceContainerHostRead env st) = [] \<and>
            Id (rd (snd (resourceContainerHostRead env st))) = '''') \<and>
         (GetDeploymentState env (now st) (name (rd st)) = Inl (resp, err) \<and>
            (resp = None \<or> (\<exists>r'. resp = Some r' \<and> StatusCode r' \<noteq> 400)) \<longrightarrow>
            fst (resourceContainerHostRead env st) = FromErr err \<and>
            Id (rd (snd (resourceContainerHostRead env st))) = Id (rd st)) \<and>
         (GetDeploymentState env (now st) (name (rd st)) = Inr ''succeeded'' \<and>
            GetDetails env (Suc (now st)) (name (rd st)) = Inl err \<longrightarrow>
            fst (resourceContainerHostRead env st) = FromErr err \<and>
            Id (rd (snd (resourceContainerHostRead env st))) = Id (rd st))"
  unfolding read_by_name [OF client byname]
  by (auto simp add: readDeployment_def Let_def)

theorem read_failed_state_clears_id:
  "fst (resourceContainerHostRead (quiet_env\<lparr>GetDeploymentState := \<lambda>t n. Inr ''failed''\<rparr>) host1) = [] \<and>
   Id (rd (snd (resourceContainerHostRead (quiet_env\<lparr>GetDeploymentState := \<lambda>t n. Inr ''failed''\<rparr>) host1))) = ''''"
  using read_clears_id_only_on_missing_or_unsuccessful_state [of "quiet_env\<lparr>GetDeploymentState := \<lambda>t n. Inr ''failed''\<rparr>" host1 undefined undefined "''failed''" undefined]
  by (simp add: eval_defs)

section \<open>Set reconciliation in the update paths\<close>

lemma emits_nil: "emits [] st = st"
  by (simp add: emits_def)

lemma emit_emits: "emit ev st = emits [ev] st"
  by (simp add: emits_def emit_def)

lemma emits_emits: "emits ys (emits xs st) = emits (xs @ ys) st"
  by (simp add: emits_def)

lemma rd_emits: "rd (emits evs st) = rd st"
  by (simp add: emits_def)

lemma issued_emits: "issued st (emits evs st) = evs"
  by (simp add: emits_def issued_def)

lemmas emits_simps = emits_nil emit_emits emits_emits rd_emits

text \<open>
  Lists with the same elements have no additions and no removals, so that a block whose
  \<open>HasChange\<close> is false sends what its body would send: nothing.
\<close>

lemma difference_same: "set xs = set ys \<Longrightarrow> difference xs ys = [] \<and> difference ys xs = []"
  by (simp add: difference_def)

text \<open>
  The blocks of the two updates when the client calls return no error: each block makes
  at most two calls, one with the additions and one with the removals.  The host blocks
  add first; the scope blocks remove first.
\<close>

lemma updateUserGroups_sends:
  assumes "\<forall>t ns gs. AddUserGroups env t ns gs = None"
    and "\<forall>t ns gs. RemoveUserGroups env t ns gs = None"
  shows "updateUserGroups env old st =
     (None,
      emits (when_nonempty (difference (user_groups (rd st)) (user_groups old))
               (EvAddUserGroups [name (rd st)]
                  (difference (user_groups (rd st)) (user_groups old))) @
             when_nonempty (difference (user_groups old) (user_groups (rd st)))
               (EvRemoveUserGroups [name (rd st)]
                  (difference (user_groups old) (user_groups (rd st))))) st)"
proof (cases "set (user_groups old) = set (user_groups (rd st))")
  case True
  with difference_same [OF True] show ?thesis
    by (simp add: updateUserGroups_def when_nonempty_def emits_simps)
next
  case False
  with assms show ?thesis
    by (simp add: updateUserGroups_def andThen_def when_nonempty_def emits_simps Let_def)
qed

lemma updateSecurityGroups_sends:
  assumes "\<forall>t ns gs. AddSecurityGroups env t ns gs = None"
    and "\<forall>t ns gs. RemoveSecurityGroups env t ns gs = None"
  shows "updateSecurityGroups env old st =
     (None,
      emits (when_nonempty (difference (security_groups (rd st)) (security_groups old))
               (EvAddSecurityGroups [name (rd st)]
                  (difference (security_groups (rd st)) (security_groups old))) @
             when_nonempty (difference (security_groups old) (security_groups (rd st)))
               (EvRemoveSecurityGroups [name (rd st)]
                  (difference (security_groups old) (security_groups (rd st))))) st)"
proof (cases "set (security_groups old) = set (security_groups (rd st))")
  case True
  with difference_same [OF True] show ?thesis
    by (simp add: updateSecurityGroups_def when_nonempty_def emits_simps)
next
  case False
  with assms show ?thesis
    by (simp add: updateSecurityGroups_def andThen_def when_nonempty_def emits_simps Let_def)
qed

lemma updateScopes_sends:
  assumes "\<forall>t i ss ds. RemoveScopes env t i ss ds = None"
  shows "updateScopes env dflt old newList st =
     (None,
      emits (when_nonempty (difference old newList)
               (if dflt then EvRemoveScopes (Id (rd st)) [] (difference old newList)
                else EvRemoveScopes (Id (rd st)) (difference old newList) []) @
             when_nonempty (difference newList old)
               (if dflt then EvAddScopes (Id (rd st)) [] (difference newList old)
                else EvAddScopes (Id (rd st)) (difference newList old) [])) st)"
proof (cases "set old = set newList")
  case True
  with difference_same [OF True] show ?thesis
    by (simp add: updateScopes_def when_nonempty_def emits_simps)
next
  case False
  with assms show ?thesis
    by (simp add: updateScopes_def andThen_def when_nonempty_def emits_simps Let_def)
qed

lemma updateTags_sends:
  assumes "\<forall>t ns m. AddTags env t ns m = None"
  shows "updateTags env old st =
     (None, emits (if set (tags old) \<noteq> set (tags (rd st))
                   then [EvAddTags [name (rd st)] (generateTagChange (tags old) (tags (rd st)))]
                   else []) st)"
  using assms by (simp add: updateTags_def emits_simps Let_def)

lemma updateProtect_sends:
  assumes "\<forall>t n b. SetProtection env t n b = None"
  shows "updateProtect env old st =
     (None, emits (if protect old \<noteq> protect (rd st)
                   then [EvSetProtection (name (rd st)) (protect (rd st))]
                   else []) st)"
  using assms by (simp add: updateProtect_def emits_simps)

lemma iam_update_sends:
  assumes "IAMClient env = None" and "\<forall>t i ss ds. RemoveScopes env t i ss ds = None"
  shows "resourceIAMServiceUpdate env old st =
        ([], emits
               (when_nonempty (difference (scopes old) (scopes (rd st)))
                  (EvRemoveScopes (Id (rd st)) (difference (scopes old) (scopes (rd st))) []) @
                when_nonempty (difference (scopes (rd st)) (scopes old))
                  (EvAddScopes (Id (rd st)) (difference (scopes (rd st)) (scopes old)) []) @
                when_nonempty (difference (default_scopes old) (default_scopes (rd st)))
                  (EvRemoveScopes (Id (rd st)) []
                     (difference (default_scopes old) (default_scopes (rd st)))) @
                when_nonempty (difference (default_scopes (rd st)) (default_scopes old))
                  (EvAddScopes (Id (rd st)) []
                     (difference (default_scopes (rd st)) (default_scopes old))))
               st)"
  using assms(1)
  by (simp add: resourceIAMServiceUpdate_def updateScopes_sends [OF assms(2)] andThen_def
        emits_simps)

lemma host_update_sends:
  assumes "CartelClient env = None"
    and "GetDetails env (now st) (name (rd st)) = Inr ch"
    and "InstanceID ch = Id (rd st)"
    and t: "\<forall>t ns m. AddTags env t ns m = None"
    and ua: "\<forall>t ns gs. AddUserGroups env t ns gs = None"
    and ur: "\<forall>t ns gs. RemoveUserGroups env t ns gs = None"
    and sa: "\<forall>t ns gs. AddSecurityGroups env t ns gs = None"
    and sr: "\<forall>t ns gs. RemoveSecurityGroups env t ns gs = None"
    and p: "\<forall>t n b. SetProtection env t n b = None"
  shows "resourceContainerHostUpdate env old st =
        ([], emits
               ([EvGetDetails (name (rd st)) (Inr ch)] @
                (if set (tags old) \<noteq> set (tags (rd st))
                 then [EvAddTags [name (rd st)] (generateTagChange (tags old) (tags (rd st)))]
                 else []) @
                when_nonempty (difference (user_groups (rd st)) (user_groups old))
                  (EvAddUserGroups [name (rd st)]
                     (difference (user_groups (rd st)) (user_groups old))) @
                when_nonempty (difference (user_groups old) (user_groups (rd st)))
                  (EvRemoveUserGroups [name (rd st)]
                     (difference (user_groups old) (user_groups (rd st)))) @
                when_nonempty (difference (security_groups (rd st)) (security_groups old))
                  (EvAddSecurityGroups [name (rd st)]
                     (difference (security_groups (rd st)) (security_groups old))) @
                when_nonempty (difference (security_groups old) (security_groups (rd st)))
                  (EvRemoveSecurityGroups [name (rd st)]
                     (difference (security_groups old) (security_groups (rd st)))) @
                (if protect old \<noteq> protect (rd st)
                 then [EvSetProtection (name (rd st)) (protect (rd st))]
                 else []))
               st)"
  using assms(1-3)
  by (simp only: resourceContainerHostUpdate_def Let_def option.case sum.case
        updateTags_sends [OF t] updateUserGroups_sends [OF ua ur]
        updateSecurityGroups_sends [OF sa sr] updateProtect_sends [OF p]
        andThen_def emits_simps prod.case simp_thms if_False append_assoc)

text \<open>
  C8.  For all old and new string sets fed to the update paths, the additions,
  \<open>difference newList oldList\<close>, are exactly the elements present in the new list and
  absent in the old one, and the removals, \<open>difference oldList newList\<close>, exactly the
  elements present in the old list and absent in the new one; old = a, b, c and
  new = b, c, d give the additions d and the removals a.  These are the lists every
  update path sends.  With a configured client and no failing call, the IAM service
  update makes, in this order and each only for a non-empty list, the calls
  RemoveScopes with the removals of \<open>scopes\<close>, AddScopes with the additions of
  \<open>scopes\<close>, RemoveScopes with the removals of \<open>default_scopes\<close> and AddScopes with the
  additions of \<open>default_scopes\<close>, and nothing else.  With a configured client, matching
  instance details and no failing call, the container host update makes, after the details
  lookup and the tag update, the calls AddUserGroups with the additions of
  \<open>user_groups\<close>, RemoveUserGroups with its removals, AddSecurityGroups with the
  additions of \<open>security_groups\<close> and RemoveSecurityGroups with its removals, each only
  for a non-empty list, then the protection update, and nothing else.
\<close>

theorem update_paths_send_additions_and_removals:
  "set (difference newList oldList) = {x. x \<in> set newList \<and> x \<notin> set oldList} \<and>
   set (difference oldList newList) = {x. x \<in> set oldList \<and> x \<notin> set newList} \<and>
   difference [''b'', ''c'', ''d''] [''a'', ''b'', ''c''] = [''d''] \<and>
   difference [''a'', ''b'', ''c''] [''b'', ''c'', ''d''] = [''a''] \<and>
   (IAMClient env = None \<and> (\<forall>t i ss ds. RemoveScopes env t i ss ds = None) \<longrightarrow>
      resourceIAMServiceUpdate env old st =
        ([], emits
               (when_nonempty (difference (scopes old) (scopes (rd st)))
                  (EvRemoveScopes (Id (rd st)) (difference (scopes old) (scopes (rd st))) []) @
                when_nonempty (difference (scopes (rd st)) (scopes old))
                  (EvAddScopes (Id (rd st)) (difference (scopes (rd st)) (scopes old)) []) @
                when_nonempty (difference (default_scopes old) (default_scopes (rd st)))
                  (EvRemoveScopes (Id (rd st)) []
                     (difference (default_scopes old) (default_scopes (rd st)))) @
                when_nonempty (difference (default_scopes (rd st)) (default_scopes old))
                  (EvAddScopes (Id (rd st)) []
                     (difference (default_scopes (rd st)) (default_scopes old))))
               st)) \<and>
   (CartelClient env = None \<and>
    GetDetails env (now st) (name (rd st)) = Inr ch \<and> InstanceID ch = Id (rd st) \<and>
    (\<forall>t ns m. AddTags env t ns m = None) \<and>
    (\<forall>t ns gs. AddUserGroups env t ns gs = None) \<and>
    (\<forall>t ns gs. RemoveUserGroups env t ns gs = None) \<and>
    (\<forall>t ns gs. AddSecurityGroups env t ns gs = None) \<and>
    (\<forall>t ns gs. RemoveSecurityGroups env t ns gs = None) \<and>
    (\<forall>t n b. SetProtection env t n b = None) \<longrightarrow>
      resourceContainerHostUpdate env old st =
        ([], emits
               ([EvGetDetails (name (rd st)) (Inr ch)] @
                (if set (tags old) \<noteq> set (tags (rd st))
                 then [EvAddTags [name (rd st)] (generateTagChange (tags old) (tags (rd st)))]
                 else []) @
                when_nonempty (difference (user_groups (rd st)) (user_groups old))
                  (EvAddUserGroups [name (rd st)]
                     (difference (user_groups (rd st)) (user_groups old))) @
                when_nonempty (difference (user_groups old) (user_groups (rd st)))
                  (EvRemoveUserGroups [name (rd st)]
                     (difference (user_groups old) (user_groups (rd st)))) @
                when_nonempty (difference (security_groups (rd st)) (security_groups old))
                  (EvAddSecurityGroups [name (rd st)]
                     (difference (security_groups (rd st)) (security_groups old))) @
                when_nonempty (difference (security_groups old) (security_groups (rd st)))
                  (EvRemoveSecurityGroups [name (rd st)]
                     (difference (security_groups old) (security_groups (rd st)))) @
                (if protect old \<noteq> protect (rd st)
                 then [EvSetProtection (name (rd st)) (protect (rd st))]
                 else []))
               st))"
proof (intro conjI impI)
  show "set (difference newList oldList) = {x. x \<in> set newList \<and> x \<notin> set oldList}"
    by (simp add: difference_def)
  show "set (difference oldList newList) = {x. x \<in> set oldList \<and> x \<notin> set newList}"
    by (simp add: difference_def)
  show "difference [''b'', ''c'', ''d''] [''a'', ''b'', ''c''] = [''d'']"
    by (simp add: difference_def)
  show "difference [''a'', ''b'', ''c''] [''b'', ''c'', ''d''] = [''a'']"
    by (simp add: difference_def)
next
  assume "IAMClient env = None \<and> (\<forall>t i ss ds. RemoveScopes env t i ss ds = None)"
  then show "resourceIAMServiceUpdate env old st =
        ([], emits
               (when_nonempty (difference (scopes old) (scopes (rd st)))
                  (EvRemoveScopes (Id (rd st)) (difference (scopes old) (scopes (rd st))) []) @
                when_nonempty (difference (scopes (rd st)) (scopes old))
                  (EvAddScopes (Id (rd st)) (difference (scopes (rd st)) (scopes old)) []) @
                when_nonempty (difference (default_scopes old) (default_scopes (rd st)))
                  (EvRemoveScopes (Id (rd st)) []
                     (difference (default_scopes old) (default_scopes (rd st)))) @
                when_nonempty (difference (default_scopes (rd st)) (default_scopes old))
                  (EvAddScopes (Id (rd st)) []
                     (difference (default_scopes (rd st)) (default_scopes old))))
               st)"
    by (intro iam_update_sends) (rule conjunct1, assumption, rule conjunct2, assumption)
next
  assume h: "CartelClient env = None \<and>
    GetDetails env (now st) (name (rd st)) = Inr ch \<and> InstanceID ch = Id (rd st) \<and>
    (\<forall>t ns m. AddTags env t ns m = None) \<and>
    (\<forall>t ns gs. AddUserGroups env t ns gs = None) \<and>
    (\<forall>t ns gs. RemoveUserGroups env t ns gs = None) \<and>
    (\<forall>t ns gs. AddSecurityGroups env t ns gs = None) \<and>
    (\<forall>t ns gs. RemoveSecurityGroups env t ns gs = None) \<and>
    (\<forall>t n b. SetProtection env t n b = None)"
  show "resourceContainerHostUpdate env old st =
        ([], emits
               ([EvGetDetails (name (rd st)) (Inr ch)] @
                (if set (tags old) \<noteq> set (tags (rd st))
                 then [EvAddTags [name (rd st)] (generateTagChange (tags old) (tags (rd st)))]
                 else []) @
                when_nonempty (difference (user_groups (rd st)) (user_groups old))
                  (EvAddUserGroups [name (rd st)]
                     (difference (user_groups (rd st)) (user_groups old))) @
                when_nonempty (difference (user_groups old) (user_groups (rd st)))
                  (EvRemoveUserGroups [name (rd st)]
                     (difference (user_groups old) (user_groups (rd st)))) @
                when_nonempty (difference (security_groups (rd st)) (security_groups old))
                  (EvAddSecurityGroups [name (rd st)]
                     (difference (security_groups (rd st)) (security_groups old))) @
                when_nonempty (difference (security_groups old) (security_groups (rd st)))
                  (EvRemoveSecurityGroups [name (rd st)]
                     (difference (security_groups old) (security_groups (rd st)))) @
                (if protect old \<noteq> protect (rd st)
                 then [EvSetProtection (name (rd st)) (protect (rd st))]
                 else []))
               st)"
    by (rule host_update_sends) (use h in blast)+
qed

theorem update_paths_example:
  "fst (resourceIAMServiceUpdate quiet_env service_before service_planned) = [] \<and>
   issued service_planned
     (snd (resourceIAMServiceUpdate quiet_env service_before service_planned)) =
     [EvRemoveScopes ''svc'' [''a''] [], EvAddScopes ''svc'' [''d''] [],
      EvRemoveScopes ''svc'' [] [''profile''], EvAddScopes ''svc'' [] [''email'']] \<and>
   fst (resourceContainerHostUpdate quiet_env host_before host_planned) = [] \<and>
   issued host_planned
     (snd (resourceContainerHostUpdate quiet_env host_before host_planned)) =
     [EvGetDetails ''host1'' (Inr (sample_details ''i-1'' ''host1'')),
      EvAddUserGroups [''host1''] [''d''], EvRemoveUserGroups [''host1''] [''a''],
      EvAddSecurityGroups [''host1''] [''sg-d''],
      EvRemoveSecurityGroups [''host1''] [''sg-a'']]"
proof -
  have svc: "IAMClient quiet_env = None \<and> (\<forall>t i ss ds. RemoveScopes quiet_env t i ss ds = None)"
    by (simp add: quiet_env_def)
  have host: "CartelClient quiet_env = None \<and>
    GetDetails quiet_env (now host_planned) (name (rd host_planned)) =
      Inr (sample_details ''i-1'' ''host1'') \<and>
    InstanceID (sample_details ''i-1'' ''host1'') = Id (rd host_planned) \<and>
    (\<forall>t ns m. AddTags quiet_env t ns m = None) \<and>
    (\<forall>t ns gs. AddUserGroups quiet_env t ns gs = None) \<and>
    (\<forall>t ns gs. RemoveUserGroups quiet_env t ns gs = None) \<and>
    (\<forall>t ns gs. AddSecurityGroups quiet_env t ns gs = None) \<and>
    (\<forall>t ns gs. RemoveSecurityGroups quiet_env t ns gs = None) \<and>
    (\<forall>t n b. SetProtection quiet_env t n b = None)"
    by (simp add: quiet_env_def host_planned_def start_def blank_data_def sample_details_def)
  have s: "resourceIAMServiceUpdate quiet_env service_before service_planned =
        ([], emits [EvRemoveScopes ''svc'' [''a''] [], EvAddScopes ''svc'' [''d''] [],
                    EvRemoveScopes ''svc'' [] [''profile''], EvAddScopes ''svc'' [] [''email'']]
               service_planned)"
    using update_paths_send_additions_and_removals
            [where env = quiet_env and old = service_before and st = service_planned] svc
    by (simp add: when_nonempty_def difference_def service_before_def service_planned_def
          start_def blank_data_def)
  have h: "resourceContainerHostUpdate quiet_env host_before host_planned =
        ([], emits [EvGetDetails ''host1'' (Inr (sample_details ''i-1'' ''host1'')),
                    EvAddUserGroups [''host1''] [''d''], EvRemoveUserGroups [''host1''] [''a''],
                    EvAddSecurityGroups [''host1''] [''sg-d''],
                    EvRemoveSecurityGroups [''host1''] [''sg-a'']]
               host_planned)"
    using update_paths_send_additions_and_removals
            [where env = quiet_env and old = host_before and st = host_planned
               and ch = "sample_details ''i-1'' ''host1''"] host
    by (simp add: when_nonempty_def difference_def host_before_def host_planned_def
          start_def blank_data_def)
  show ?thesis
    by (simp only: s h fst_conv snd_conv issued_emits simp_thms)
qed

section \<open>Container host: validation of files and commands before creation\<close>

lemma appendCommands_strings:
  "appendCommands (map Some cs) acc = Inr (acc @ cs)"
  by (induction cs arbitrary: acc) simp_all

lemma appendCommands_nil:
  "None \<in> set list \<Longrightarrow> appendCommands list acc = Inl InterfaceConversion"
  by (induction list acc rule: appendCommands.induct) auto

lemma collectCommands_strings:
  "commands d = map Some cmds \<Longrightarrow> collectCommands d = Inr (cmds, [])"
  by (simp add: collectCommands_def appendCommands_strings)

lemma collectCommands_nil:
  "None \<in> set (commands d) \<Longrightarrow> collectCommands d = Inl InterfaceConversion"
  by (simp add: collectCommands_def appendCommands_nil)

lemma collectFile_cases:
  obtains
    (neither) "Source f = ''''" "Content f = ''''"
      "collectFile env f (files, diags, st) = (files, diags @ [neitherDiag f], st)"
  | (both) "Source f \<noteq> ''''" "Content f \<noteq> ''''"
      "collectFile env f (files, diags, st) = (files, diags @ [bothDiag f], st)"
  | (content) "Source f = ''''" "Content f \<noteq> ''''"
      "collectFile env f (files, diags, st) = (files @ [f], diags, st)"
  | (openErr) e where "Source f \<noteq> ''''" "Content f = ''''"
      "collectFile env f (files, diags, st) =
         (files, diags @ [openDiag f e], emit (EvOpen (Source f)) st)"
  | (statErr) e where "Source f \<noteq> ''''" "Content f = ''''"
      "collectFile env f (files, diags, st) =
         (files, diags @ [statDiag f e], emit (EvStat (Source f)) (emit (EvOpen (Source f)) st))"
  | (source) "Source f \<noteq> ''''" "Content f = ''''"
      "collectFile env f (files, diags, st) =
         (files @ [f], diags, emit (EvStat (Source f)) (emit (EvOpen (Source f)) st))"
proof (cases "Source f = ''''")
  case True
  then show ?thesis
    by (cases "Content f = ''''") (auto simp: collectFile_def intro: neither content)
next
  case src: False
  show ?thesis
  proof (cases "Content f = ''''")
    case False
    with src show ?thesis by (auto simp: collectFile_def intro: both)
  next
    case True
    show ?thesis
    proof (cases "os_Open env (now st) (Source f)")
      case (Some e)
      with src True show ?thesis by (auto simp: collectFile_def Let_def intro: openErr)
    next
      case None
      show ?thesis
      proof (cases "file_Stat env (Suc (now st)) (Source f)")
        case (Some e)
        with src True None show ?thesis
          by (auto simp: collectFile_def Let_def intro: statErr)
      next
        case None': None
        with src True None show ?thesis
          by (auto simp: collectFile_def Let_def intro: source)
      qed
    qed
  qed
qed


lemma collectFile_state:
  "collectFile env f (files0, diags0, st0) = (files1, diags1, st1) \<Longrightarrow>
   rd st1 = rd st0 \<and>
   (\<exists>evs. trace st1 = trace st0 @ evs \<and> (\<forall>e\<in>set evs. \<not> is_network e))"
  by (rule collectFile_cases [of f env files0 diags0 st0]) auto

lemma collectFile_files:
  "collectFile env f (files0, diags0, st0) = (files1, diags1, st1) \<Longrightarrow>
   (files1 = files0 \<and> (\<exists>dg. diags1 = diags0 @ [dg] \<and> Severity dg = Error)) \<or>
   (files1 = files0 @ [f] \<and> diags1 = diags0 \<and> (Source f = '''') \<noteq> (Content f = ''''))"
  by (rule collectFile_cases [of f env files0 diags0 st0]) auto

lemma collectFile_reports:
  "collectFile env f (files0, diags0, st0) = (files1, diags1, st1) \<Longrightarrow>
   (Source f = '''' \<and> Content f = '''' \<longrightarrow> neitherDiag f \<in> set diags1) \<and>
   (Source f \<noteq> '''' \<and> Content f \<noteq> '''' \<longrightarrow> bothDiag f \<in> set diags1) \<and>
   (Source f = '''' \<and> Content f \<noteq> '''' \<longrightarrow> f \<in> set files1) \<and>
   (Source f \<noteq> '''' \<and> Content f = '''' \<longrightarrow>
      f \<in> set files1 \<or> (\<exists>e. openDiag f e \<in> set diags1 \<or> statDiag f e \<in> set diags1))"
  by (rule collectFile_cases [of f env files0 diags0 st0]) auto

lemma collect_loop_state:
  "fold (collectFile env) fs (files0, diags0, st0) = (files, diags, st) \<Longrightarrow>
   rd st = rd st0 \<and> (\<exists>evs. trace st = trace st0 @ evs \<and> (\<forall>e\<in>set evs. \<not> is_network e))"
proof (induction fs arbitrary: files0 diags0 st0)
  case Nil
  then show ?case by simp
next
  case (Cons x xs)
  obtain files1 diags1 st1 where
    step: "collectFile env x (files0, diags0, st0) = (files1, diags1, st1)"
    by (cases "collectFile env x (files0, diags0, st0)")
  with Cons.prems have "fold (collectFile env) xs (files1, diags1, st1) = (files, diags, st)"
    by simp
  from Cons.IH [OF this] collectFile_state [OF step] show ?case by auto
qed

lemma collect_loop_files:
  "fold (collectFile env) fs (files0, diags0, st0) = (files, diags, st) \<Longrightarrow>
   (\<exists>fs'. files = files0 @ fs' \<and>
      set fs' \<subseteq> {f \<in> set fs. (Source f = '''') \<noteq> (Content f = '''')}) \<and>
   (\<exists>ds. diags = diags0 @ ds \<and> (\<forall>dg\<in>set ds. Severity dg = Error)) \<and>
   (diags = [] \<longrightarrow> files = files0 @ fs)"
proof (induction fs arbitrary: files0 diags0 st0)
  case Nil
  then show ?case by simp
next
  case (Cons x xs)
  obtain files1 diags1 st1 where
    step: "collectFile env x (files0, diags0, st0) = (files1, diags1, st1)"
    by (cases "collectFile env x (files0, diags0, st0)")
  with Cons.prems have rest: "fold (collectFile env) xs (files1, diags1, st1) = (files, diags, st)"
    by simp
  from Cons.IH [OF rest] obtain fs' ds where
    ih: "files = files1 @ fs'" "set fs' \<subseteq> {f \<in> set xs. (Source f = '''') \<noteq> (Content f = '''')}"
      "diags = diags1 @ ds" "\<forall>dg\<in>set ds. Severity dg = Error"
      "diags = [] \<longrightarrow> files = files1 @ xs"
    by blast
  from collectFile_files [OF step] show ?case
  proof
    assume "files1 = files0 \<and> (\<exists>dg. diags1 = diags0 @ [dg] \<and> Severity dg = Error)"
    with ih show ?thesis by auto
  next
    assume "files1 = files0 @ [x] \<and> diags1 = diags0 \<and> (Source x = '''') \<noteq> (Content x = '''')"
    with ih show ?thesis by auto
  qed
qed

lemma collect_loop_reports:
  "fold (collectFile env) fs (files0, diags0, st0) = (files, diags, st) \<Longrightarrow> f \<in> set fs \<Longrightarrow>
   (Source f = '''' \<and> Content f = '''' \<longrightarrow> neitherDiag f \<in> set diags) \<and>
   (Source f \<noteq> '''' \<and> Content f \<noteq> '''' \<longrightarrow> bothDiag f \<in> set diags) \<and>
   (Source f = '''' \<and> Content f \<noteq> '''' \<longrightarrow> f \<in> set files) \<and>
   (Source f \<noteq> '''' \<and> Content f = '''' \<longrightarrow>
      f \<in> set files \<or> (\<exists>e. openDiag f e \<in> set diags \<or> statDiag f e \<in> set diags))"
proof (induction fs arbitrary: files0 diags0 st0)
  case Nil
  then show ?case by simp
next
  case (Cons x xs)
  obtain files1 diags1 st1 where
    step: "collectFile env x (files0, diags0, st0) = (files1, diags1, st1)"
    by (cases "collectFile env x (files0, diags0, st0)")
  with Cons.prems have rest: "fold (collectFile env) xs (files1, diags1, st1) = (files, diags, st)"
    by simp
  show ?case
  proof (cases "f \<in> set xs")
    case True
    from Cons.IH [OF rest True] show ?thesis .
  next
    case False
    with Cons.prems have fx: "f = x" by simp
    from collect_loop_files [OF rest] obtain fs' ds where
      "files = files1 @ fs'" "diags = diags1 @ ds" by blast
    then have "set files1 \<subseteq> set files" "set diags1 \<subseteq> set diags" by auto
    with collectFile_reports [OF step] fx show ?thesis by blast
  qed
qed


lemmas create_defs = resourceContainerHostCreate_def collectFilesToCreate_def collectFile_def
  collectCommands_def

lemma create_after_collect:
  assumes "CartelClient env = None" and "collectFilesToCreate env st = (files, diags, st1)"
  shows "diags \<noteq> [] \<Longrightarrow> resourceContainerHostCreate env st = Inr (diags, st1)"
    and "diags = [] \<Longrightarrow> None \<in> set (commands (rd st)) \<Longrightarrow>
         resourceContainerHostCreate env st = Inl InterfaceConversion"
    and "diags = [] \<Longrightarrow> commands (rd st) = map Some cmds \<Longrightarrow> cmds \<noteq> [] \<Longrightarrow>
         user (rd st) = '''' \<Longrightarrow>
         resourceContainerHostCreate env st =
           Inr (FromErr (Errorf ''user must be set when '%s' is specified'' [ArgS commandsField]),
                st1)"
    and "diags = [] \<Longrightarrow> commands (rd st) = map Some cmds \<Longrightarrow> cmds \<noteq> [] \<Longrightarrow>
         user (rd st) \<noteq> '''' \<Longrightarrow> private_key (rd st) = '''' \<Longrightarrow>
         resourceContainerHostCreate env st =
           Inr (FromErr (Errorf ''privateKey must be set when '%s' is specified''
                           [ArgS commandsField]),
                st1)"
    and "diags = [] \<Longrightarrow> commands (rd st) = map Some cmds \<Longrightarrow>
         cmds = [] \<or> (user (rd st) \<noteq> '''' \<and> private_key (rd st) \<noteq> '''') \<Longrightarrow>
         resourceContainerHostCreate env st =
           Inr (case createInstance env st1 of
                  (Inl ds, st2) \<Rightarrow> (ds, st2)
                | (Inr (instanceID, ipAddress), st2) \<Rightarrow>
                    provisionHost env instanceID ipAddress files cmds st2)"
proof -
  have rd1: "rd st1 = rd st"
    using assms(2) collect_loop_state [of env "fileField (rd st)" "[]" "[]" st files diags st1]
    by (simp add: collectFilesToCreate_def)
  show "diags \<noteq> [] \<Longrightarrow> resourceContainerHostCreate env st = Inr (diags, st1)"
    using assms by (simp add: resourceContainerHostCreate_def)
  show "diags = [] \<Longrightarrow> None \<in> set (commands (rd st)) \<Longrightarrow>
         resourceContainerHostCreate env st = Inl InterfaceConversion"
    using assms rd1 by (simp add: resourceContainerHostCreate_def collectCommands_nil)
  show "diags = [] \<Longrightarrow> commands (rd st) = map Some cmds \<Longrightarrow> cmds \<noteq> [] \<Longrightarrow>
         user (rd st) = '''' \<Longrightarrow>
         resourceContainerHostCreate env st =
           Inr (FromErr (Errorf ''user must be set when '%s' is specified'' [ArgS commandsField]),
                st1)"
    using assms rd1
    by (simp add: resourceContainerHostCreate_def collectCommands_strings [of "rd st" cmds])
  show "diags = [] \<Longrightarrow> commands (rd st) = map Some cmds \<Longrightarrow> cmds \<noteq> [] \<Longrightarrow>
         user (rd st) \<noteq> '''' \<Longrightarrow> private_key (rd st) = '''' \<Longrightarrow>
         resourceContainerHostCreate env st =
           Inr (FromErr (Errorf ''privateKey must be set when '%s' is specified''
                           [ArgS commandsField]),
                st1)"
    using assms rd1
    by (simp add: resourceContainerHostCreate_def collectCommands_strings [of "rd st" cmds])
  show "diags = [] \<Longrightarrow> commands (rd st) = map Some cmds \<Longrightarrow>
         cmds = [] \<or> (user (rd st) \<noteq> '''' \<and> private_key (rd st) \<noteq> '''') \<Longrightarrow>
         resourceContainerHostCreate env st =
           Inr (case createInstance env st1 of
                  (Inl ds, st2) \<Rightarrow> (ds, st2)
                | (Inr (instanceID, ipAddress), st2) \<Rightarrow>
                    provisionHost env instanceID ipAddress files cmds st2)"
    using assms rd1
    by (auto simp add: resourceContainerHostCreate_def collectCommands_strings [of "rd st" cmds]
          split: prod.split sum.split)
qed

text \<open>
  C4, as stated, fails.  Creation given one file block with neither source nor content
  and one valid block with content returns the diagnostic of the first block and stops:
  it makes no call at all, so the valid block is never copied.
\<close>

theorem invalid_file_block_stops_creation:
  "resourceContainerHostCreate quiet_env host_with_files =
     Inr ([\<lparr>Severity = Error, Summary = Lit ''conflict in file block'',
            Detail = Sprintf ''file %s has neither 'source' or 'content', set one''
                       [ArgS ''/tmp/a'']\<rparr>],
          host_with_files) \<and>
   trace host_with_files = []"
  by (simp add: create_defs host_with_files_def bad_file_def good_file_def eval_defs)

text \<open>
  C4, amended.  For every file block given to container host creation: a block with
  neither source nor content, or with both, is reported as an error diagnostic and is
  not in the copy set that \<open>collectFilesToCreate\<close> returns; a valid block is in the copy set
  (a block with a source unless opening or inspecting the source failed, which is
  reported).  But when any diagnostic was reported, creation returns the diagnostics at
  once: it issues no remote call and copies no file.
\<close>

theorem invalid_file_blocks_reported_and_excluded:
  assumes coll: "collectFilesToCreate env st = (files, diags, st1)"
    and f: "f \<in> set (fileField (rd st))"
  shows "(Source f = '''' \<and> Content f = '''' \<longrightarrow> f \<notin> set files \<and> neitherDiag f \<in> set diags) \<and>
         (Source f \<noteq> '''' \<and> Content f \<noteq> '''' \<longrightarrow> f \<notin> set files \<and> bothDiag f \<in> set diags) \<and>
         (Source f = '''' \<and> Content f \<noteq> '''' \<longrightarrow> f \<in> set files) \<and>
         (Source f \<noteq> '''' \<and> Content f = '''' \<longrightarrow>
            f \<in> set files \<or> (\<exists>e. openDiag f e \<in> set diags \<or> statDiag f e \<in> set diags)) \<and>
         (diags \<noteq> [] \<and> CartelClient env = None \<longrightarrow>
            resourceContainerHostCreate env st = Inr (diags, st1) \<and>
            (\<forall>e\<in>set (issued st st1). \<not> is_network e))"
proof -
  from coll have loop: "fold (collectFile env) (fileField (rd st)) ([], [], st) = (files, diags, st1)"
    by (simp add: collectFilesToCreate_def)
  from collect_loop_files [OF loop]
  have valid: "set files \<subseteq> {f \<in> set (fileField (rd st)). (Source f = '''') \<noteq> (Content f = '''')}"
    by auto
  from collect_loop_state [OF loop] obtain evs where
    evs: "trace st1 = trace st @ evs" "\<forall>e\<in>set evs. \<not> is_network e" by blast
  then have local: "\<forall>e\<in>set (issued st st1). \<not> is_network e"
    by (simp add: issued_append)
  have stop: "diags \<noteq> [] \<and> CartelClient env = None \<longrightarrow>
                resourceContainerHostCreate env st = Inr (diags, st1)"
    using create_after_collect(1) [OF _ coll] by blast
  from collect_loop_reports [OF loop f] valid local stop show ?thesis by auto
qed

theorem file_blocks_example:
  "bad_file \<notin> set (fst (collectFilesToCreate quiet_env host_with_files)) \<and>
   good_file \<in> set (fst (collectFilesToCreate quiet_env host_with_files)) \<and>
   resourceContainerHostCreate quiet_env host_with_files =
     Inr ([\<lparr>Severity = Error, Summary = Lit ''conflict in file block'',
            Detail = Sprintf ''file %s has neither 'source' or 'content', set one''
                       [ArgS ''/tmp/a'']\<rparr>], host_with_files)"
proof -
  have coll: "collectFilesToCreate quiet_env host_with_files =
          ([good_file],
           [\<lparr>Severity = Error, Summary = Lit ''conflict in file block'',
             Detail = Sprintf ''file %s has neither 'source' or 'content', set one''
                        [ArgS ''/tmp/a'']\<rparr>], host_with_files)"
    by (simp add: create_defs host_with_files_def bad_file_def good_file_def eval_defs)
  have fs: "bad_file \<in> set (fileField (rd host_with_files))"
    "good_file \<in> set (fileField (rd host_with_files))"
    by (simp_all add: host_with_files_def start_def)
  have cl: "CartelClient quiet_env = None" by (simp add: quiet_env_def)
  from invalid_file_blocks_reported_and_excluded [OF coll fs(1)]
       invalid_file_blocks_reported_and_excluded [OF coll fs(2)] cl coll
  show ?thesis
    by (simp add: bad_file_def good_file_def)
qed

text \<open>
  For every host request whose commands are strings, of which there is at least one,
  and whose user or private key is empty, creation returns diagnostics, all of severity
  Error, having done at most reads of local files: it issues no network call, in
  particular not the creation call.  With a configured client and file blocks that raise
  no diagnostic, the diagnostic is the validation error naming the missing attribute.
\<close>

lemma commands_need_user_and_key:
  assumes cmds: "commands (rd st) = map Some cmds" "cmds \<noteq> []"
    and missing: "user (rd st) = '''' \<or> private_key (rd st) = ''''"
  shows "\<exists>diags st'.
           resourceContainerHostCreate env st = Inr (diags, st') \<and> diags \<noteq> [] \<and>
           (\<forall>dg\<in>set diags. Severity dg = Error) \<and>
           (\<forall>e\<in>set (issued st st'). \<not> is_network e \<and> \<not> is_create e) \<and>
           (CartelClient env = None \<and> fst (snd (collectFilesToCreate env st)) = [] \<longrightarrow>
              diags = FromErr (Errorf (if user (rd st) = ''''
                                       then ''user must be set when '%s' is specified''
                                       else ''privateKey must be set when '%s' is specified'')
                                 [ArgS commandsField]))"
proof (cases "CartelClient env")
  case (Some err)
  then show ?thesis by (simp add: resourceContainerHostCreate_def FromErr_def)
next
  case None
  obtain files diags st1 where coll: "collectFilesToCreate env st = (files, diags, st1)"
    by (cases "collectFilesToCreate env st")
  then have loop: "fold (collectFile env) (fileField (rd st)) ([], [], st) = (files, diags, st1)"
    by (simp add: collectFilesToCreate_def)
  from collect_loop_state [OF loop] obtain evs where
    "trace st1 = trace st @ evs" "\<forall>e\<in>set evs. \<not> is_network e" by blast
  then have "\<forall>e\<in>set (issued st st1). \<not> is_network e"
    by (simp add: issued_append)
  moreover have "\<not> is_network e \<Longrightarrow> \<not> is_create e" for e
    by (cases e) simp_all
  ultimately have local: "\<forall>e\<in>set (issued st st1). \<not> is_network e \<and> \<not> is_create e"
    by blast
  from collect_loop_files [OF loop] have sev: "\<forall>dg\<in>set diags. Severity dg = Error"
    by auto
  show ?thesis
  proof (cases "diags = []")
    case False
    from create_after_collect(1) [OF None coll False] False sev local coll
    show ?thesis by simp
  next
    case True
    show ?thesis
    proof (cases "user (rd st) = ''''")
      case True': True
      from create_after_collect(3) [OF None coll True cmds True'] local True'
      show ?thesis by (simp add: FromErr_def)
    next
      case False
      with missing have pk: "private_key (rd st) = ''''" by simp
      from create_after_collect(4) [OF None coll True cmds False pk] local False
      show ?thesis by (simp add: FromErr_def)
    qed
  qed
qed

lemma commands_without_user_example:
  "resourceContainerHostCreate quiet_env host_with_commands =
     Inr (FromErr (Errorf ''user must be set when '%s' is specified'' [ArgS commandsField]),
          host_with_commands)"
  by (simp add: create_defs host_with_commands_def eval_defs)

text \<open>
  C5 is not what the code does at one kind of input.  A host request whose commands
  list holds a command written as the empty string, with the user left empty, reaches
  \<open>collectCommands\<close> with a nil element; the unchecked assertion \<open>list[i].(string)\<close>
  panics there, before the check of user and private key, and creation returns no
  diagnostic at all.
\<close>

theorem empty_command_panics_before_validation:
  "commands (rd host_with_empty_command) = [None] \<and>
   user (rd host_with_empty_command) = '''' \<and>
   resourceContainerHostCreate quiet_env host_with_empty_command = Inl InterfaceConversion"
  by (simp add: create_defs host_with_empty_command_def eval_defs)

section \<open>Container host: the copy loop, the command loop and the calls of read\<close>

lemma written_append [simp]: "written (xs @ ys) = written xs @ written ys"
  by (induction xs rule: written.induct) simp_all

lemma ran_append [simp]: "ran (xs @ ys) = ran xs @ ran ys"
  by (induction xs rule: ran.induct) simp_all

lemma written_none: "(\<forall>e\<in>set evs. \<not> is_write e) \<Longrightarrow> written evs = []"
  by (induction evs rule: written.induct) simp_all

lemma ran_none: "(\<forall>e\<in>set evs. \<not> is_run e) \<Longrightarrow> ran evs = []"
  by (induction evs rule: ran.induct) simp_all

lemma copyFiles_cases:
  obtains
    (content) "Source f = ''''"
      "copyFiles env ssh (f # fs) st =
         copyFiles env ssh fs
           (emit (EvWriteFile (Server ssh) (Destination f)
                    (ssh_WriteFile env (now st) (Destination f))) st)"
  | (openErr) e where "Source f \<noteq> ''''" "os_Open env (now st) (Source f) = Some e"
      "copyFiles env ssh (f # fs) st = (Some e, emit (EvOpen (Source f)) st)"
  | (statErr) e where "Source f \<noteq> ''''" "file_Stat env (Suc (now st)) (Source f) = Some e"
      "copyFiles env ssh (f # fs) st =
         (Some e, emit (EvStat (Source f)) (emit (EvOpen (Source f)) st))"
  | (source) "Source f \<noteq> ''''"
      "copyFiles env ssh (f # fs) st =
         copyFiles env ssh fs
           (emit (EvWriteFile (Server ssh) (Destination f)
                    (ssh_WriteFile env (Suc (Suc (now st))) (Destination f)))
              (emit (EvStat (Source f)) (emit (EvOpen (Source f)) st)))"
proof (cases "Source f = ''''")
  case True
  then show ?thesis by (auto intro: content)
next
  case src: False
  show ?thesis
  proof (cases "os_Open env (now st) (Source f)")
    case (Some e)
    with src show ?thesis by (auto simp: Let_def intro: openErr)
  next
    case None
    show ?thesis
    proof (cases "file_Stat env (Suc (now st)) (Source f)")
      case (Some e)
      with src None show ?thesis by (auto simp: Let_def intro: statErr)
    next
      case None': None
      with src None show ?thesis by (auto simp: Let_def intro: source)
    qed
  qed
qed

lemma copyFiles_trace:
  "copyFiles env ssh fs st = (r, st') \<Longrightarrow>
   rd st' = rd st \<and>
   (\<exists>evs. trace st' = trace st @ evs \<and>
      (\<forall>e\<in>set evs. \<not> is_run e \<and> \<not> is_destroy e \<and> \<not> is_create e) \<and>
      (r = None \<longrightarrow> map fst (written evs) = map Destination fs) \<and>
      (\<forall>err. r = Some err \<longrightarrow>
         (\<exists>k<length fs. map fst (written evs) = map Destination (take k fs) \<and>
            (\<exists>t. os_Open env t (Source (fs ! k)) = Some err \<or>
                  file_Stat env t (Source (fs ! k)) = Some err))))"
proof (induction fs arbitrary: st)
  case Nil
  then show ?case by simp
next
  case (Cons f fs)
  show ?case
  proof (rule copyFiles_cases [of f env ssh fs st])
    fix e
    assume "Source f \<noteq> ''''" "os_Open env (now st) (Source f) = Some e"
      "copyFiles env ssh (f # fs) st = (Some e, emit (EvOpen (Source f)) st)"
    with Cons.prems have r: "r = Some e" and st': "st' = emit (EvOpen (Source f)) st"
      and op: "\<exists>t. os_Open env t (Source ((f # fs) ! 0)) = Some e \<or>
                   file_Stat env t (Source ((f # fs) ! 0)) = Some e"
      by auto
    have "\<exists>k<length (f # fs). map fst (written [EvOpen (Source f)]) = map Destination (take k (f # fs)) \<and>
            (\<exists>t. os_Open env t (Source ((f # fs) ! k)) = Some e \<or>
                  file_Stat env t (Source ((f # fs) ! k)) = Some e)"
      using op by (intro exI [of _ 0]) simp
    with r st' show ?thesis
      by (intro conjI exI [of _ "[EvOpen (Source f)]"]) simp_all
  next
    fix e
    assume "Source f \<noteq> ''''" "file_Stat env (Suc (now st)) (Source f) = Some e"
      "copyFiles env ssh (f # fs) st =
         (Some e, emit (EvStat (Source f)) (emit (EvOpen (Source f)) st))"
    with Cons.prems have r: "r = Some e"
      and st': "st' = emit (EvStat (Source f)) (emit (EvOpen (Source f)) st)"
      and op: "\<exists>t. os_Open env t (Source ((f # fs) ! 0)) = Some e \<or>
                   file_Stat env t (Source ((f # fs) ! 0)) = Some e"
      by auto
    have "\<exists>k<length (f # fs).
            map fst (written [EvOpen (Source f), EvStat (Source f)]) = map Destination (take k (f # fs)) \<and>
            (\<exists>t. os_Open env t (Source ((f # fs) ! k)) = Some e \<or>
                  file_Stat env t (Source ((f # fs) ! k)) = Some e)"
      using op by (intro exI [of _ 0]) simp
    with r st' show ?thesis
      by (intro conjI exI [of _ "[EvOpen (Source f), EvStat (Source f)]"]) simp_all
  next
    let ?w = "EvWriteFile (Server ssh) (Destination f) (ssh_WriteFile env (now st) (Destination f))"
    assume "Source f = ''''" "copyFiles env ssh (f # fs) st = copyFiles env ssh fs (emit ?w st)"
    with Cons.prems have "copyFiles env ssh fs (emit ?w st) = (r, st')" by simp
    from Cons.IH [OF this] obtain evs where
      rd: "rd st' = rd st" and tr: "trace st' = trace st @ ?w # evs"
      and shape: "\<forall>e\<in>set evs. \<not> is_run e \<and> \<not> is_destroy e \<and> \<not> is_create e"
      and ok: "r = None \<longrightarrow> map fst (written evs) = map Destination fs"
      and bad: "\<forall>err. r = Some err \<longrightarrow>
         (\<exists>k<length fs. map fst (written evs) = map Destination (take k fs) \<and>
            (\<exists>t. os_Open env t (Source (fs ! k)) = Some err \<or>
                  file_Stat env t (Source (fs ! k)) = Some err))"
      by auto
    have "\<forall>err. r = Some err \<longrightarrow>
         (\<exists>k<length (f # fs). map fst (written (?w # evs)) = map Destination (take k (f # fs)) \<and>
            (\<exists>t. os_Open env t (Source ((f # fs) ! k)) = Some err \<or>
                  file_Stat env t (Source ((f # fs) ! k)) = Some err))"
    proof (intro allI impI)
      fix err assume "r = Some err"
      with bad obtain k where k: "k < length fs"
        "map fst (written evs) = map Destination (take k fs)"
        "\<exists>t. os_Open env t (Source (fs ! k)) = Some err \<or>
                  file_Stat env t (Source (fs ! k)) = Some err" by blast
      then show "\<exists>k<length (f # fs). map fst (written (?w # evs)) = map Destination (take k (f # fs)) \<and>
            (\<exists>t. os_Open env t (Source ((f # fs) ! k)) = Some err \<or>
                  file_Stat env t (Source ((f # fs) ! k)) = Some err)"
        by (intro exI [of _ "Suc k"]) simp
    qed
    with rd tr shape ok show ?thesis
      by (intro conjI exI [of _ "?w # evs"]) simp_all
  next
    let ?w = "EvWriteFile (Server ssh) (Destination f)
                (ssh_WriteFile env (Suc (Suc (now st))) (Destination f))"
    let ?st2 = "emit (EvStat (Source f)) (emit (EvOpen (Source f)) st)"
    assume "Source f \<noteq> ''''" "copyFiles env ssh (f # fs) st = copyFiles env ssh fs (emit ?w ?st2)"
    with Cons.prems have "copyFiles env ssh fs (emit ?w ?st2) = (r, st')" by simp
    from Cons.IH [OF this] obtain evs where
      rd: "rd st' = rd st"
      and tr: "trace st' = trace st @ EvOpen (Source f) # EvStat (Source f) # ?w # evs"
      and shape: "\<forall>e\<in>set evs. \<not> is_run e \<and> \<not> is_destroy e \<and> \<not> is_create e"
      and ok: "r = None \<longrightarrow> map fst (written evs) = map Destination fs"
      and bad: "\<forall>err. r = Some err \<longrightarrow>
         (\<exists>k<length fs. map fst (written evs) = map Destination (take k fs) \<and>
            (\<exists>t. os_Open env t (Source (fs ! k)) = Some err \<or>
                  file_Stat env t (Source (fs ! k)) = Some err))"
      by auto
    let ?evs = "EvOpen (Source f) # EvStat (Source f) # ?w # evs"
    have "\<forall>err. r = Some err \<longrightarrow>
         (\<exists>k<length (f # fs). map fst (written ?evs) = map Destination (take k (f # fs)) \<and>
            (\<exists>t. os_Open env t (Source ((f # fs) ! k)) = Some err \<or>
                  file_Stat env t (Source ((f # fs) ! k)) = Some err))"
    proof (intro allI impI)
      fix err assume "r = Some err"
      with bad obtain k where k: "k < length fs"
        "map fst (written evs) = map Destination (take k fs)"
        "\<exists>t. os_Open env t (Source (fs ! k)) = Some err \<or>
                  file_Stat env t (Source (fs ! k)) = Some err" by blast
      then show "\<exists>k<length (f # fs). map fst (written ?evs) = map Destination (take k (f # fs)) \<and>
            (\<exists>t. os_Open env t (Source ((f # fs) ! k)) = Some err \<or>
                  file_Stat env t (Source ((f # fs) ! k)) = Some err)"
        by (intro exI [of _ "Suc k"]) simp
    qed
    with rd tr shape ok show ?thesis
      by (intro conjI exI [of _ ?evs]) simp_all
  qed
qed

lemma run_event_kind: "is_run e \<Longrightarrow> \<not> is_write e \<and> \<not> is_destroy e \<and> \<not> is_create e"
  by (cases e) simp_all

lemma runCommands_trace:
  "runCommands env ssh cs st = (r, st') \<Longrightarrow>
   rd st' = rd st \<and>
   (\<exists>evs. trace st' = trace st @ evs \<and> (\<forall>e\<in>set evs. is_run e) \<and>
      (r = None \<longrightarrow> ran evs = map (\<lambda>c. (c, 300, None)) cs) \<and>
      (\<forall>err. r = Some err \<longrightarrow>
         (\<exists>k<length cs. \<exists>e0.
            ran evs = map (\<lambda>c. (c, 300, None)) (take k cs) @ [(cs ! k, 300, Some e0)] \<and>
            err = Errorf ''command [%s]: %w'' [ArgS (cs ! k), ArgE e0])))"
proof (induction cs arbitrary: st)
  case Nil
  then show ?case by simp
next
  case (Cons c cs)
  let ?r = "ssh_Run env (now st) c"
  let ?ev = "EvRun (Server ssh) c 300 ?r"
  show ?case
  proof (cases ?r)
    case (Some e0)
    with Cons.prems have r: "r = Some (Errorf ''command [%s]: %w'' [ArgS c, ArgE e0])"
      and st': "st' = emit ?ev st" by (simp_all add: Let_def)
    have "\<exists>k<length (c # cs). \<exists>e1.
            ran [?ev] = map (\<lambda>c. (c, 300, None)) (take k (c # cs)) @ [((c # cs) ! k, 300, Some e1)] \<and>
            Errorf ''command [%s]: %w'' [ArgS c, ArgE e0]
              = Errorf ''command [%s]: %w'' [ArgS ((c # cs) ! k), ArgE e1]"
      using Some by (intro exI [of _ 0] exI [of _ e0]) simp
    with r st' show ?thesis
      by (intro conjI exI [of _ "[?ev]"]) simp_all
  next
    case None
    with Cons.prems have "runCommands env ssh cs (emit ?ev st) = (r, st')"
      by (simp add: Let_def)
    from Cons.IH [OF this] obtain evs where
      rd: "rd st' = rd st" and tr: "trace st' = trace st @ ?ev # evs"
      and shape: "\<forall>e\<in>set evs. is_run e"
      and ok: "r = None \<longrightarrow> ran evs = map (\<lambda>c. (c, 300, None)) cs"
      and bad: "\<forall>err. r = Some err \<longrightarrow>
         (\<exists>k<length cs. \<exists>e0.
            ran evs = map (\<lambda>c. (c, 300, None)) (take k cs) @ [(cs ! k, 300, Some e0)] \<and>
            err = Errorf ''command [%s]: %w'' [ArgS (cs ! k), ArgE e0])"
      by auto
    have "\<forall>err. r = Some err \<longrightarrow>
         (\<exists>k<length (c # cs). \<exists>e0.
            ran (?ev # evs) = map (\<lambda>c. (c, 300, None)) (take k (c # cs)) @ [((c # cs) ! k, 300, Some e0)] \<and>
            err = Errorf ''command [%s]: %w'' [ArgS ((c # cs) ! k), ArgE e0])"
    proof (intro allI impI)
      fix err assume "r = Some err"
      with bad obtain k e0 where "k < length cs"
        "ran evs = map (\<lambda>c. (c, 300, None)) (take k cs) @ [(cs ! k, 300, Some e0)]"
        "err = Errorf ''command [%s]: %w'' [ArgS (cs ! k), ArgE e0]" by blast
      with None show "\<exists>k<length (c # cs). \<exists>e0.
            ran (?ev # evs) = map (\<lambda>c. (c, 300, None)) (take k (c # cs)) @ [((c # cs) ! k, 300, Some e0)] \<and>
            err = Errorf ''command [%s]: %w'' [ArgS ((c # cs) ! k), ArgE e0]"
        by (intro exI [of _ "Suc k"] exI [of _ e0]) simp
    qed
    with rd tr shape ok None show ?thesis
      by (intro conjI exI [of _ "?ev # evs"]) simp_all
  qed
qed

lemma read_trace:
  "\<exists>evs. trace (snd (resourceContainerHostRead env st)) = trace st @ evs \<and>
     (\<forall>e\<in>set evs. \<not> is_destroy e \<and> \<not> is_write e \<and> \<not> is_run e \<and> \<not> is_create e)"
proof (cases "CartelClient env")
  case (Some err)
  then show ?thesis by (simp add: resourceContainerHostRead_def)
next
  case None
  obtain r st1 where imp: "importName env st = (r, st1)" by (cases "importName env st")
  from importName_trace [OF imp] obtain evs where
    tr1: "trace st1 = trace st @ evs" and evs: "set evs \<subseteq> {EvGetAllInstances}" by blast
  from evs have kind: "\<forall>e\<in>set evs. \<not> is_destroy e \<and> \<not> is_write e \<and> \<not> is_run e \<and> \<not> is_create e"
    by auto
  show ?thesis
  proof (cases r)
    case (Inl err)
    with None imp tr1 kind show ?thesis by (simp add: resourceContainerHostRead_def)
  next
    case (Inr tagName)
    with None imp have "resourceContainerHostRead env st = readDeployment env tagName st1"
      by (simp add: resourceContainerHostRead_def)
    with tr1 kind show ?thesis
      by (auto simp add: readDeployment_issued)
  qed
qed

section \<open>Container host: the wait for the deployment state\<close>

lemma polled_0 [simp]: "polled nm 0 st = st"
  by (simp add: polled_def)

lemma polled_emit: "polled nm k (emit (EvGetDeploymentState nm) st) = polled nm (Suc k) st"
  by (simp add: polled_def emit_def)

lemma emit_polled: "emit (EvGetDeploymentState nm) (polled nm k st) = polled nm (Suc k) st"
  by (simp add: polled_def emit_def replicate_append_same)

lemma now_polled [simp]: "now (polled nm k st) = now st + k"
  by (simp add: polled_def now_def)

lemma rd_polled [simp]: "rd (polled nm k st) = rd st"
  by (simp add: polled_def)

lemma trace_polled [simp]: "trace (polled nm k st) = trace st @ replicate k (EvGetDeploymentState nm)"
  by (simp add: polled_def)

lemma wait_succeeded:
  "GetDeploymentState env (now st) nm = Inr ''succeeded'' \<Longrightarrow>
   waitForHost env nm (Suc n) st = (None, emit (EvGetDeploymentState nm) st)"
  by (simp add: InstanceStateRefreshFunc_def Let_def)

lemma wait_pending:
  assumes "GetDeploymentState env (now st) nm \<in> {Inr ''provisioning'', Inr ''indeterminate''}"
  shows "waitForHost env nm (Suc n) st = waitForHost env nm n (emit (EvGetDeploymentState nm) st)"
proof -
  from assms consider "GetDeploymentState env (now st) nm = Inr ''provisioning''"
    | "GetDeploymentState env (now st) nm = Inr ''indeterminate''" by blast
  then show ?thesis
    by cases (simp_all add: InstanceStateRefreshFunc_def Let_def)
qed

lemma wait_failed:
  assumes "GetDeploymentState env (now st) nm = Inr s"
    and "s \<in> {''failed'', ''terminated'', ''shutting-down''}"
  shows "waitForHost env nm (Suc n) st =
     (Some (Errorf ''failed to reach target state, reason: %s'' [ArgS s]),
      emit (EvGetDeploymentState nm) st)"
proof -
  from assms(2) consider "s = ''failed''" | "s = ''terminated''" | "s = ''shutting-down''"
    by blast
  then show ?thesis
    using assms(1) by cases (simp_all add: InstanceStateRefreshFunc_def Let_def)
qed

lemma wait_skip:
  "\<forall>j<k. GetDeploymentState env (now st + j) nm \<in> {Inr ''provisioning'', Inr ''indeterminate''} \<Longrightarrow>
   waitForHost env nm (k + n) st = waitForHost env nm n (polled nm k st)"
proof (induction k arbitrary: st)
  case 0
  show ?case by (simp only: polled_0 add_0)
next
  case (Suc k)
  from Suc.prems have "GetDeploymentState env (now st + 0) nm \<in> {Inr ''provisioning'', Inr ''indeterminate''}"
    by blast
  then have first: "GetDeploymentState env (now st) nm \<in> {Inr ''provisioning'', Inr ''indeterminate''}"
    by (simp only: add_0_right)
  have rest: "\<forall>j<k. GetDeploymentState env (now (emit (EvGetDeploymentState nm) st) + j) nm
                 \<in> {Inr ''provisioning'', Inr ''indeterminate''}"
  proof (intro allI impI)
    fix j assume "j < k"
    then have "Suc j < Suc k" by simp
    with Suc.prems have "GetDeploymentState env (now st + Suc j) nm
                 \<in> {Inr ''provisioning'', Inr ''indeterminate''}" by blast
    then show "GetDeploymentState env (now (emit (EvGetDeploymentState nm) st) + j) nm
                 \<in> {Inr ''provisioning'', Inr ''indeterminate''}"
      by (simp only: now_emit add_Suc add_Suc_right)
  qed
  have "waitForHost env nm (Suc k + n) st = waitForHost env nm (Suc (k + n)) st"
    by (simp only: add_Suc)
  also have "\<dots> = waitForHost env nm (k + n) (emit (EvGetDeploymentState nm) st)"
    by (rule wait_pending [OF first])
  also have "\<dots> = waitForHost env nm n (polled nm k (emit (EvGetDeploymentState nm) st))"
    by (rule Suc.IH [OF rest])
  finally show ?case by (simp only: polled_emit)
qed

lemma wait_outcomes:
  assumes pend: "\<forall>j<k. GetDeploymentState env (now st + j) nm \<in> {Inr ''provisioning'', Inr ''indeterminate''}"
  shows "k = n \<Longrightarrow> waitForHost env nm n st = (Some TimeoutError, polled nm k st)"
    and "k < n \<Longrightarrow> GetDeploymentState env (now st + k) nm = Inr ''succeeded'' \<Longrightarrow>
         waitForHost env nm n st = (None, polled nm (Suc k) st)"
    and "k < n \<Longrightarrow> GetDeploymentState env (now st + k) nm = Inr s \<Longrightarrow>
         s \<in> {''failed'', ''terminated'', ''shutting-down''} \<Longrightarrow>
         waitForHost env nm n st =
           (Some (Errorf ''failed to reach target state, reason: %s'' [ArgS s]),
            polled nm (Suc k) st)"
proof -
  show "waitForHost env nm n st = (Some TimeoutError, polled nm k st)" if "k = n"
  proof -
    have "waitForHost env nm (k + 0) st = waitForHost env nm 0 (polled nm k st)"
      by (rule wait_skip [OF pend])
    then show ?thesis
      unfolding that [symmetric] by (simp only: add_0_right WaitForStateContext.simps(1))
  qed
  show "waitForHost env nm n st = (None, polled nm (Suc k) st)"
    if "k < n" "GetDeploymentState env (now st + k) nm = Inr ''succeeded''"
  proof -
    from that(1) obtain m where "n = Suc (k + m)" using less_imp_Suc_add by blast
    then have n: "n = k + Suc m" by simp
    from that(2) have "GetDeploymentState env (now (polled nm k st)) nm = Inr ''succeeded''"
      by (simp only: now_polled)
    from wait_succeeded [OF this, of m]
    have "waitForHost env nm (Suc m) (polled nm k st) = (None, polled nm (Suc k) st)"
      by (simp only: emit_polled)
    with wait_skip [OF pend, of "Suc m"] show ?thesis
      unfolding n by (rule trans)
  qed
  show "waitForHost env nm n st =
           (Some (Errorf ''failed to reach target state, reason: %s'' [ArgS s]),
            polled nm (Suc k) st)"
    if "k < n" "GetDeploymentState env (now st + k) nm = Inr s"
      "s \<in> {''failed'', ''terminated'', ''shutting-down''}"
  proof -
    from that(1) obtain m where "n = Suc (k + m)" using less_imp_Suc_add by blast
    then have n: "n = k + Suc m" by simp
    from that(2) have "GetDeploymentState env (now (polled nm k st)) nm = Inr s"
      by (simp only: now_polled)
    from wait_failed [OF this that(3), of m]
    have "waitForHost env nm (Suc m) (polled nm k st) =
            (Some (Errorf ''failed to reach target state, reason: %s'' [ArgS s]),
             polled nm (Suc k) st)"
      by (simp only: emit_polled)
    with wait_skip [OF pend, of "Suc m"] show ?thesis
      unfolding n by (rule trans)
  qed
qed

lemma refresh_state:
  "snd (InstanceStateRefreshFunc env nm fs st) = emit (EvGetDeploymentState nm) st"
  by (simp add: InstanceStateRefreshFunc_def Let_def split: sum.split prod.split)

lemma wait_trace:
  "waitForHost env nm n st = (r, st') \<Longrightarrow>
   rd st' = rd st \<and> (\<exists>k\<le>n. trace st' = trace st @ replicate k (EvGetDeploymentState nm))"
proof (induction n arbitrary: st)
  case 0
  then have "st' = st" by (simp only: WaitForStateContext.simps(1) prod.inject)
  then show ?case by simp
next
  case (Suc n)
  let ?st1 = "emit (EvGetDeploymentState nm) st"
  let ?F = "[''failed'', ''terminated'', ''shutting-down'']"
  obtain a where refresh: "InstanceStateRefreshFunc env nm ?F st = (a, ?st1)"
    using refresh_state [of env nm ?F st]
    by (cases "InstanceStateRefreshFunc env nm ?F st") simp
  have step: "waitForHost env nm (Suc n) st =
          (case a of
             Inl err \<Rightarrow> (Some err, ?st1)
           | Inr s \<Rightarrow>
               if s \<in> set [''succeeded''] then (None, ?st1)
               else if s \<in> set [''provisioning'', ''indeterminate'']
                    then waitForHost env nm n ?st1
                    else (Some (UnexpectedStateError s), ?st1))"
    by (simp only: WaitForStateContext.simps(2) refresh prod.case)
  have direct: "rd ?st1 = rd st \<and>
      (\<exists>k\<le>Suc n. trace ?st1 = trace st @ replicate k (EvGetDeploymentState nm))"
    by (intro conjI exI [of _ "Suc 0"]) simp_all
  have later: "rd st' = rd st \<and>
      (\<exists>k\<le>Suc n. trace st' = trace st @ replicate k (EvGetDeploymentState nm))"
    if "waitForHost env nm n ?st1 = (r, st')"
  proof -
    from Suc.IH [OF that] obtain k where "rd st' = rd st" "k \<le> n"
      "trace st' = trace st @ replicate (Suc k) (EvGetDeploymentState nm)"
      by (auto simp add: replicate_append_same)
    then show ?thesis by (intro conjI exI [of _ "Suc k"]) simp_all
  qed
  show ?case
  proof (cases a)
    case (Inl err)
    with step Suc.prems have "st' = ?st1" by (simp only: sum.case prod.inject)
    with direct show ?thesis by (simp only:)
  next
    case (Inr s)
    show ?thesis
    proof (cases "s \<in> set [''succeeded'']")
      case True
      with step Inr Suc.prems have "st' = ?st1" by (simp only: sum.case if_True prod.inject)
      with direct show ?thesis by (simp only:)
    next
      case notT: False
      show ?thesis
      proof (cases "s \<in> set [''provisioning'', ''indeterminate'']")
        case True
        with step Inr notT Suc.prems have "waitForHost env nm n ?st1 = (r, st')"
          by (simp only: sum.case if_True if_False)
        then show ?thesis by (rule later)
      next
        case False
        with step Inr notT Suc.prems have "st' = ?st1"
          by (simp only: sum.case if_False prod.inject)
        with direct show ?thesis by (simp only:)
      qed
    qed
  qed
qed

section \<open>Container host: bootstrap after the wait\<close>

lemma sshConfig_ConnInfo [simp]:
  "sshConfig env (d\<lparr>ConnInfo := c\<rparr>) ip = sshConfig env d ip"
  by (simp add: sshConfig_def)

lemma trace_rd_update [simp]: "trace (st\<lparr>rd := d\<rparr>) = trace st"
  by simp

lemma issued_split:
  "trace b = trace a @ xs \<Longrightarrow> trace c = trace b @ ys \<Longrightarrow> issued a c = issued a b @ issued b c"
  by (simp add: issued_def)

text \<open>
  C6, amended.  During the bootstrap of a container host the file-copy loop comes before
  every command: the calls are those of the copy loop, then those of the command loop,
  then those of the read, and no command runs in the first part and no file is written
  in the other two.  The copy loop writes the requested files in order and discards what
  the remote writes return; it ends at the first source file that cannot be opened or
  inspected, leaving that file and all later ones uncopied, and this is reported as one
  warning diagnostic only and prevents neither the commands nor the rest of provisioning.
  The commands run strictly in declaration order, each with its own timeout of 300
  seconds; the first command that fails ends the loop, the later commands do not run,
  and the failure is returned as an error diagnostic (after the warning, if any) without
  the final read.
\<close>

theorem bootstrap_copies_then_runs_commands_in_order:
  assumes copy: "copyFiles env (sshConfig env (rd st) ip) files
                   (st\<lparr>rd := (rd st)\<lparr>ConnInfo := [(''type'', ''ssh''), (''host'', ip)]\<rparr>\<rparr>)
                 = (copyErr, st3)"
    and run: "runCommands env (sshConfig env (rd st) ip) cmds st3 = (runErr, st4)"
    and warn: "warn = (case copyErr of None \<Rightarrow> [] | Some e \<Rightarrow> [copyWarning e])"
    and res: "res = bootstrapHost env ip files cmds st"
  shows "issued st (snd res) = issued st st3 @ issued st3 st4 @ issued st4 (snd res) \<and>
         ran (issued st st3) = [] \<and>
         written (issued st3 st4) = [] \<and>
         written (issued st4 (snd res)) = [] \<and> ran (issued st4 (snd res)) = [] \<and>
         (copyErr = None \<longrightarrow> map fst (written (issued st st3)) = map Destination files) \<and>
         (\<forall>e. copyErr = Some e \<longrightarrow>
            (\<exists>k<length files.
               map fst (written (issued st st3)) = map Destination (take k files) \<and>
               (\<exists>t. os_Open env t (Source (files ! k)) = Some e \<or>
                    file_Stat env t (Source (files ! k)) = Some e))) \<and>
         (runErr = None \<longrightarrow>
            ran (issued st3 st4) = map (\<lambda>c. (c, 300, None)) cmds \<and>
            res = (warn @ fst (resourceContainerHostRead env st4),
                   snd (resourceContainerHostRead env st4))) \<and>
         (\<forall>err. runErr = Some err \<longrightarrow>
            (\<exists>k<length cmds. \<exists>e0.
               ran (issued st3 st4) =
                 map (\<lambda>c. (c, 300, None)) (take k cmds) @ [(cmds ! k, 300, Some e0)] \<and>
               res = (warn @ FromErr (Errorf ''command [%s]: %w'' [ArgS (cmds ! k), ArgE e0]),
                      st4)))"
proof -
  let ?st2 = "st\<lparr>rd := (rd st)\<lparr>ConnInfo := [(''type'', ''ssh''), (''host'', ip)]\<rparr>\<rparr>"
  from copyFiles_trace [OF copy] obtain A where
    trA: "trace st3 = trace st @ A"
    and kindA: "\<forall>e\<in>set A. \<not> is_run e \<and> \<not> is_destroy e \<and> \<not> is_create e"
    and okA: "copyErr = None \<longrightarrow> map fst (written A) = map Destination files"
    and badA: "\<forall>err. copyErr = Some err \<longrightarrow>
         (\<exists>k<length files. map fst (written A) = map Destination (take k files) \<and>
            (\<exists>t. os_Open env t (Source (files ! k)) = Some err \<or>
                  file_Stat env t (Source (files ! k)) = Some err))"
    by auto
  from runCommands_trace [OF run] obtain B where
    trB: "trace st4 = trace st3 @ B" and kindB: "\<forall>e\<in>set B. is_run e"
    and okB: "runErr = None \<longrightarrow> ran B = map (\<lambda>c. (c, 300, None)) cmds"
    and badB: "\<forall>err. runErr = Some err \<longrightarrow>
         (\<exists>k<length cmds. \<exists>e0.
            ran B = map (\<lambda>c. (c, 300, None)) (take k cmds) @ [(cmds ! k, 300, Some e0)] \<and>
            err = Errorf ''command [%s]: %w'' [ArgS (cmds ! k), ArgE e0])"
    by auto
  have iA: "issued st st3 = A" using trA by (rule issued_append)
  have iB: "issued st3 st4 = B" using trB by (rule issued_append)
  have ranA: "ran A = []" using kindA by (intro ran_none) blast
  have wrB: "written B = []" using kindB run_event_kind by (intro written_none) blast
  have unfold: "res = (case runErr of
                         Some err \<Rightarrow> (warn @ FromErr err, st4)
                       | None \<Rightarrow> (warn @ fst (resourceContainerHostRead env st4),
                                  snd (resourceContainerHostRead env st4)))"
    using copy run
    by (simp add: res warn bootstrapHost_def Let_def split: option.split prod.split)
  obtain C where trC: "trace (snd res) = trace st4 @ C"
    and kindC: "\<forall>e\<in>set C. \<not> is_write e \<and> \<not> is_run e"
  proof (cases runErr)
    case None
    with unfold have "snd res = snd (resourceContainerHostRead env st4)" by simp
    with read_trace [of env st4] that show ?thesis by auto
  next
    case (Some err)
    with unfold have "snd res = st4" by simp
    with that [of "[]"] show ?thesis by simp
  qed
  have iC: "issued st4 (snd res) = C" using trC by (rule issued_append)
  have "trace (snd res) = trace st @ A @ B @ C" using trA trB trC by simp
  then have whole: "issued st (snd res) = A @ B @ C" by (rule issued_append)
  have wrC: "written C = []" using kindC by (intro written_none) blast
  have ranC: "ran C = []" using kindC by (intro ran_none) blast
  have last: "\<forall>err. runErr = Some err \<longrightarrow>
            (\<exists>k<length cmds. \<exists>e0.
               ran B = map (\<lambda>c. (c, 300, None)) (take k cmds) @ [(cmds ! k, 300, Some e0)] \<and>
               res = (warn @ FromErr (Errorf ''command [%s]: %w'' [ArgS (cmds ! k), ArgE e0]),
                      st4))"
  proof (intro allI impI)
    fix err assume e: "runErr = Some err"
    with badB obtain k e0 where "k < length cmds"
      "ran B = map (\<lambda>c. (c, 300, None)) (take k cmds) @ [(cmds ! k, 300, Some e0)]"
      "err = Errorf ''command [%s]: %w'' [ArgS (cmds ! k), ArgE e0]" by blast
    with unfold e show "\<exists>k<length cmds. \<exists>e0.
               ran B = map (\<lambda>c. (c, 300, None)) (take k cmds) @ [(cmds ! k, 300, Some e0)] \<and>
               res = (warn @ FromErr (Errorf ''command [%s]: %w'' [ArgS (cmds ! k), ArgE e0]),
                      st4)"
      by (intro exI [of _ k] exI [of _ e0]) simp
  qed
  have ok: "runErr = None \<longrightarrow>
            ran B = map (\<lambda>c. (c, 300, None)) cmds \<and>
            res = (warn @ fst (resourceContainerHostRead env st4),
                   snd (resourceContainerHostRead env st4))"
    using okB unfold by simp
  show ?thesis
    unfolding iA iB iC whole
    using ranA wrB wrC ranC okA badA ok last by blast
qed

lemmas run_defs = create_defs createInstance_def createOptions_def provisionHost_def
  bootstrapHost_def sshConfig_def InstanceStateRefreshFunc_def
  resourceContainerHostRead_def importName_def readDeployment_def projectDetails_def
  difference_def normalizeTags_def
  source_file_def good_file_def bad_file_def host_to_bootstrap_def host_with_content_def
  failing_write_env_def vanishing_file_env_def failing_command_env_def eval_defs
  numeral_3_eq_3

text \<open>
  C6, as stated, fails in two ways.  First run: the one requested file has inline
  content and the remote write returns an error; creation ends without any diagnostic, so
  this file-copy failure is not reported, not even as a warning.  Second run: the source
  of the first of two requested files can no longer be opened when the copy starts; the
  copy loop ends there, no file is written (the second, valid one neither), one warning
  is reported, and all three commands run all the same: commands run although not all
  requested files were copied.
\<close>

theorem write_failure_unreported_copy_stops_at_missing_source:
  "diags_of (resourceContainerHostCreate failing_write_env host_with_content) = Some [] \<and>
   map_option (written \<circ> trace)
     (state_of (resourceContainerHostCreate failing_write_env host_with_content))
     = Some [(''/tmp/b'', Some (SdkError ''scp failed''))] \<and>
   diags_of (resourceContainerHostCreate vanishing_file_env host_to_bootstrap)
     = Some [copyWarning (SdkError ''no such file'')] \<and>
   map_option (written \<circ> trace)
     (state_of (resourceContainerHostCreate vanishing_file_env host_to_bootstrap)) = Some [] \<and>
   map_option (ran \<circ> trace)
     (state_of (resourceContainerHostCreate vanishing_file_env host_to_bootstrap))
     = Some [(''uptime'', 300, None), (''false'', 300, None), (''date'', 300, None)]"
  by (simp add: run_defs appendCommands.simps)

theorem bootstrap_failing_command_example:
  "map fst (written (trace (snd (bootstrapHost failing_command_env ''10.0.0.5''
       [source_file, good_file] [''uptime'', ''false'', ''date''] host_to_bootstrap))))
     = [''/etc/motd'', ''/tmp/b''] \<and>
   ran (trace (snd (bootstrapHost failing_command_env ''10.0.0.5''
       [source_file, good_file] [''uptime'', ''false'', ''date''] host_to_bootstrap)))
     = [(''uptime'', 300, None), (''false'', 300, Some (SdkError ''exit status 1''))] \<and>
   fst (bootstrapHost failing_command_env ''10.0.0.5''
       [source_file, good_file] [''uptime'', ''false'', ''date''] host_to_bootstrap)
     = FromErr (Errorf ''command [%s]: %w'' [ArgS ''false'', ArgE (SdkError ''exit status 1'')])"
  using bootstrap_copies_then_runs_commands_in_order [where env = failing_command_env and st = host_to_bootstrap
              and ip = "''10.0.0.5''" and files = "[source_file, good_file]"
              and cmds = "[''uptime'', ''false'', ''date'']",
            OF prod.collapse [symmetric] prod.collapse [symmetric] refl refl]
  by (simp add: run_defs)

section \<open>Container host: the creation call and the recovery by name\<close>

lemma createInstance_ok:
  "Create env (now st) (name (rd st)) (createOptions (rd st)) = CreateOk ch \<Longrightarrow>
   createInstance env st =
     (Inr (ch_InstanceID ch, ch_IPAddress ch),
      emit (EvCreate (name (rd st)) (createOptions (rd st))) st)"
  by (simp add: createInstance_def Let_def)

lemma createInstance_no_response:
  "Create env (now st) (name (rd st)) (createOptions (rd st)) = CreateErr ch None err \<Longrightarrow>
   createInstance env st =
     (Inl (FromErr (Errorf ''create error (resp=nil): %w'' [ArgE err])),
      emit (EvDestroy (name (rd st))) (emit (EvCreate (name (rd st)) (createOptions (rd st))) st))"
  by (simp add: createInstance_def Let_def)

lemma createInstance_rejected:
  "Create env (now st) (name (rd st)) (createOptions (rd st)) = CreateErr (Some c) (Some r) err \<Longrightarrow>
   StatusCode r < 500 \<Longrightarrow>
   createInstance env st =
     (Inl (FromErr (Errorf ''create error (description=[%s], code=[%d]): %w''
                      [ArgS (Description c), ArgD (StatusCode r), ArgE err])),
      emit (EvDestroy (name (rd st))) (emit (EvCreate (name (rd st)) (createOptions (rd st))) st))"
  by (simp add: createInstance_def Let_def)

lemma createInstance_ambiguous:
  "Create env (now st) (name (rd st)) (createOptions (rd st)) = CreateErr ch (Some r) err \<Longrightarrow>
   ch = None \<or> 500 \<le> StatusCode r \<Longrightarrow>
   createInstance env st =
     recoverInstance env (name (rd st)) r err
       (emit (EvCreate (name (rd st)) (createOptions (rd st))) st)"
  by (cases ch) (auto simp add: createInstance_def Let_def)

lemma recoverInstance_found:
  "GetAllInstances env (now st) = Inr instances \<Longrightarrow>
   find (\<lambda>i. NameTag i = nm) instances = Some details \<Longrightarrow>
   recoverInstance env nm r err st =
     (Inr (InstanceID details, PrivateAddress details), emit EvGetAllInstances st)"
  by (simp add: recoverInstance_def findInstanceByName_def Let_def)

lemma recoverInstance_not_found:
  "(case GetAllInstances env (now st) of
      Inl e \<Rightarrow> True
    | Inr instances \<Rightarrow> find (\<lambda>i. NameTag i = nm) instances = None) \<Longrightarrow>
   recoverInstance env nm r err st =
     (Inl (FromErr (Errorf ''create error (status=%d): %w'' [ArgD (StatusCode r), ArgE err])),
      emit (EvDestroy nm) (emit EvGetAllInstances st))"
  by (cases "GetAllInstances env (now st)")
     (simp_all add: recoverInstance_def findInstanceByName_def Let_def)

lemma createInstance_continues:
  assumes "createInstance env st = (Inr x, st')"
  shows "rd st' = rd st \<and>
         (\<exists>evs. trace st' = trace st @ evs \<and> (\<forall>e\<in>set evs. \<not> is_destroy e))"
proof (cases "Create env (now st) (name (rd st)) (createOptions (rd st))")
  case (CreateOk ch)
  from createInstance_ok [OF this] assms show ?thesis by auto
next
  case (CreateErr ch resp err)
  show ?thesis
  proof (cases resp)
    case None
    with CreateErr createInstance_no_response [of env st ch err] assms show ?thesis by simp
  next
    case (Some r)
    show ?thesis
    proof (cases "ch = None \<or> 500 \<le> StatusCode r")
      case False
      then obtain c where "ch = Some c" "StatusCode r < 500" by auto
      with CreateErr Some createInstance_rejected [of env st c r err] assms
      show ?thesis by simp
    next
      case True
      let ?st1 = "emit (EvCreate (name (rd st)) (createOptions (rd st))) st"
      from createInstance_ambiguous [OF _ True] CreateErr Some assms
      have rec: "recoverInstance env (name (rd st)) r err ?st1 = (Inr x, st')" by simp
      have "st' = emit EvGetAllInstances ?st1"
        using rec
        by (simp add: recoverInstance_def findInstanceByName_def Let_def
              split: sum.splits option.splits)
      then show ?thesis by auto
    qed
  qed
qed

lemma bootstrap_trace:
  "\<exists>evs. trace (snd (bootstrapHost env ip files cmds st)) = trace st @ evs \<and>
     (\<forall>e\<in>set evs. \<not> is_destroy e)"
proof -
  let ?st2 = "st\<lparr>rd := (rd st)\<lparr>ConnInfo := [(''type'', ''ssh''), (''host'', ip)]\<rparr>\<rparr>"
  let ?ssh = "sshConfig env (rd st) ip"
  obtain copyErr st3 where copy: "copyFiles env ?ssh files ?st2 = (copyErr, st3)"
    by (cases "copyFiles env ?ssh files ?st2")
  obtain runErr st4 where run: "runCommands env ?ssh cmds st3 = (runErr, st4)"
    by (cases "runCommands env ?ssh cmds st3")
  from copyFiles_trace [OF copy] obtain A where
    A: "trace st3 = trace st @ A" "\<forall>e\<in>set A. \<not> is_destroy e" by auto
  from runCommands_trace [OF run] run_event_kind obtain B where
    B: "trace st4 = trace st3 @ B" "\<forall>e\<in>set B. \<not> is_destroy e" by blast
  have unfold: "snd (bootstrapHost env ip files cmds st) =
          (case runErr of Some err \<Rightarrow> st4 | None \<Rightarrow> snd (resourceContainerHostRead env st4))"
    using copy run
    by (simp add: bootstrapHost_def Let_def split: option.split prod.split)
  show ?thesis
  proof (cases runErr)
    case None
    from read_trace [of env st4] obtain C where
      "trace (snd (resourceContainerHostRead env st4)) = trace st4 @ C"
      "\<forall>e\<in>set C. \<not> is_destroy e" by blast
    with unfold None A B show ?thesis
      by (intro exI [of _ "A @ B @ C"]) auto
  next
    case (Some err)
    with unfold A B show ?thesis by (intro exI [of _ "A @ B"]) auto
  qed
qed

lemma provisionHost_wait:
  "provisionHost env iid ip files cmds st =
     (case waitForHost env (name (rd st)) (polls_before_timeout env) (SetId iid st) of
        (Some err, st1) \<Rightarrow>
          (FromErr (Errorf ''error waiting for instance '%s' to become ready: %s''
                      [ArgS iid, ArgE err]),
           emit (EvDestroy (name (rd st))) st1)
      | (None, st1) \<Rightarrow> bootstrapHost env ip files cmds st1)"
  unfolding provisionHost_def Let_def by (rule refl)

lemma provisionHost_wait_failed:
  "waitForHost env (name (rd st)) (polls_before_timeout env) (SetId iid st) = (Some err, st1) \<Longrightarrow>
   provisionHost env iid ip files cmds st =
     (FromErr (Errorf ''error waiting for instance '%s' to become ready: %s''
                 [ArgS iid, ArgE err]),
      emit (EvDestroy (name (rd st))) st1)"
  by (simp only: provisionHost_wait prod.case option.case)

lemma provisionHost_wait_succeeded:
  "waitForHost env (name (rd st)) (polls_before_timeout env) (SetId iid st) = (None, st1) \<Longrightarrow>
   provisionHost env iid ip files cmds st = bootstrapHost env ip files cmds st1"
  by (simp only: provisionHost_wait prod.case option.case)

lemma local_event_kind: "\<not> is_network e \<Longrightarrow> \<not> is_destroy e \<and> \<not> is_create e"
  by (cases e) simp_all

lemma create_after_validation:
  assumes client: "CartelClient env = None"
    and coll: "collectFilesToCreate env st = (files, [], st1)"
    and cmds: "commands (rd st) = map Some cmds"
    and valid: "cmds = [] \<or> (user (rd st) \<noteq> '''' \<and> private_key (rd st) \<noteq> '''')"
  shows "rd st1 = rd st"
    and "\<exists>evs. trace st1 = trace st @ evs \<and> (\<forall>e\<in>set evs. \<not> is_destroy e)"
    and "createInstance env st1 = (Inl ds, st2) \<Longrightarrow> resourceContainerHostCreate env st = Inr (ds, st2)"
    and "createInstance env st1 = (Inr (iid, ip), st2) \<Longrightarrow>
         resourceContainerHostCreate env st = Inr (provisionHost env iid ip files cmds st2)"
proof -
  from coll have loop: "fold (collectFile env) (fileField (rd st)) ([], [], st) = (files, [], st1)"
    by (simp add: collectFilesToCreate_def)
  from collect_loop_state [OF loop] local_event_kind
  show "rd st1 = rd st"
    and "\<exists>evs. trace st1 = trace st @ evs \<and> (\<forall>e\<in>set evs. \<not> is_destroy e)"
    by blast+
  show "createInstance env st1 = (Inl ds, st2) \<Longrightarrow> resourceContainerHostCreate env st = Inr (ds, st2)"
    using create_after_collect(5) [OF client coll refl cmds valid] by simp
  show "createInstance env st1 = (Inr (iid, ip), st2) \<Longrightarrow>
         resourceContainerHostCreate env st = Inr (provisionHost env iid ip files cmds st2)"
    using create_after_collect(5) [OF client coll refl cmds valid] by simp
qed

text \<open>
  C3, amended.  For a host request that has passed validation (its commands are all
  strings, so that \<open>collectCommands\<close> returns them): when the creation call fails and a
  response came back with it, and either the status code is 500 or above or no channel
  was returned, creation lists all instances and takes the first one whose name tag
  equals the name: if there is one, its InstanceID and private address are adopted and
  creation continues with the wait as after a successful call; if there is none (or the
  listing fails), the compensating destroy is issued and the original error is reported
  wrapped with the status.  When the call fails without any response, no recovery is
  attempted: the destroy is issued at once and the original error is reported.
\<close>

theorem ambiguous_create_failure_recovers_by_name:
  assumes client: "CartelClient env = None"
    and coll: "collectFilesToCreate env st = (files, [], st1)"
    and cmds: "commands (rd st) = map Some cmds"
    and valid: "cmds = [] \<or> (user (rd st) \<noteq> '''' \<and> private_key (rd st) \<noteq> '''')"
    and failed: "Create env (now st1) (name (rd st)) (createOptions (rd st)) = CreateErr ch resp err"
    and called: "st2 = emit (EvCreate (name (rd st)) (createOptions (rd st))) st1"
  shows "(\<forall>r. resp = Some r \<and> (ch = None \<or> 500 \<le> StatusCode r) \<longrightarrow>
            (\<forall>instances details.
               GetAllInstances env (now st2) = Inr instances \<and>
               find (\<lambda>i. NameTag i = name (rd st)) instances = Some details \<longrightarrow>
               resourceContainerHostCreate env st =
                 Inr (provisionHost env (InstanceID details) (PrivateAddress details) files
                        cmds (emit EvGetAllInstances st2))) \<and>
            ((case GetAllInstances env (now st2) of
                Inl e \<Rightarrow> True
              | Inr instances \<Rightarrow> find (\<lambda>i. NameTag i = name (rd st)) instances = None) \<longrightarrow>
               resourceContainerHostCreate env st =
                 Inr (FromErr (Errorf ''create error (status=%d): %w''
                                 [ArgD (StatusCode r), ArgE err]),
                      emit (EvDestroy (name (rd st))) (emit EvGetAllInstances st2)))) \<and>
         (resp = None \<longrightarrow>
            resourceContainerHostCreate env st =
              Inr (FromErr (Errorf ''create error (resp=nil): %w'' [ArgE err]),
                   emit (EvDestroy (name (rd st))) st2))"
proof -
  note after = create_after_validation [OF client coll cmds valid]
  from failed after(1)
  have failed1: "Create env (now st1) (name (rd st1)) (createOptions (rd st1)) = CreateErr ch resp err"
    by simp
  have a: "resourceContainerHostCreate env st =
             Inr (provisionHost env (InstanceID details) (PrivateAddress details) files
                    cmds (emit EvGetAllInstances st2))"
    if "resp = Some r" "ch = None \<or> 500 \<le> StatusCode r"
      "GetAllInstances env (now st2) = Inr instances"
      "find (\<lambda>i. NameTag i = name (rd st)) instances = Some details"
    for r instances details
  proof -
    from createInstance_ambiguous [OF failed1 [unfolded that(1)] that(2)] after(1) called
    have "createInstance env st1 = recoverInstance env (name (rd st)) r err st2" by simp
    with recoverInstance_found [OF that(3) that(4), of r err]
    have "createInstance env st1 =
            (Inr (InstanceID details, PrivateAddress details), emit EvGetAllInstances st2)"
      by simp
    then show ?thesis by (rule after(4))
  qed
  have b: "resourceContainerHostCreate env st =
                 Inr (FromErr (Errorf ''create error (status=%d): %w''
                                 [ArgD (StatusCode r), ArgE err]),
                      emit (EvDestroy (name (rd st))) (emit EvGetAllInstances st2))"
    if "resp = Some r" "ch = None \<or> 500 \<le> StatusCode r"
      "case GetAllInstances env (now st2) of
                Inl e \<Rightarrow> True
              | Inr instances \<Rightarrow> find (\<lambda>i. NameTag i = name (rd st)) instances = None"
    for r
  proof -
    from createInstance_ambiguous [OF failed1 [unfolded that(1)] that(2)] after(1) called
    have "createInstance env st1 = recoverInstance env (name (rd st)) r err st2" by simp
    with recoverInstance_not_found [OF that(3), of r err]
    have "createInstance env st1 =
            (Inl (FromErr (Errorf ''create error (status=%d): %w''
                             [ArgD (StatusCode r), ArgE err])),
             emit (EvDestroy (name (rd st))) (emit EvGetAllInstances st2))"
      by simp
    then show ?thesis by (rule after(3))
  qed
  have c: "resourceContainerHostCreate env st =
              Inr (FromErr (Errorf ''create error (resp=nil): %w'' [ArgE err]),
                   emit (EvDestroy (name (rd st))) st2)"
    if "resp = None"
  proof -
    from createInstance_no_response [OF failed1 [unfolded that]] after(1) called
    have "createInstance env st1 =
            (Inl (FromErr (Errorf ''create error (resp=nil): %w'' [ArgE err])),
             emit (EvDestroy (name (rd st))) st2)"
      by simp
    then show ?thesis by (rule after(3))
  qed
  from a b c show ?thesis by blast
qed

lemmas run_defs2 = run_defs host_plain_def listed_host_def no_response_env_def
  gateway_timeout_env_def recoverInstance_def findInstanceByName_def

text \<open>
  C3, as stated, fails.  The creation call returns an error with no channel and no
  response at all, while an instance with the name tag exists: creation does not list the
  instances; it issues the destroy at once and reports the error.
\<close>

theorem no_response_skips_recovery:
  "resourceContainerHostCreate no_response_env host_plain =
     Inr (FromErr (Errorf ''create error (resp=nil): %w''
                     [ArgE (SdkError ''connection timed out'')]),
          host_plain\<lparr>trace := [EvCreate ''host1'' (createOptions (rd host_plain)),
                                 EvDestroy ''host1'']\<rparr>)"
  by (simp add: run_defs2)

theorem gateway_timeout_recovery_example:
  "diags_of (resourceContainerHostCreate gateway_timeout_env host_plain) = Some [] \<and>
   map_option (Id \<circ> rd) (state_of (resourceContainerHostCreate gateway_timeout_env host_plain))
     = Some ''i-9'' \<and>
   map_option (ConnInfo \<circ> rd)
     (state_of (resourceContainerHostCreate gateway_timeout_env host_plain))
     = Some [(''type'', ''ssh''), (''host'', ''10.0.0.9'')] \<and>
   map_option trace (state_of (resourceContainerHostCreate gateway_timeout_env host_plain))
     = Some [EvCreate ''host1'' (createOptions (rd host_plain)), EvGetAllInstances,
             EvGetDeploymentState ''host1'', EvGetDeploymentState ''host1'',
             EvGetDetails ''host1'' (Inr listed_host)]"
proof -
  have client: "CartelClient gateway_timeout_env = None"
    by (simp add: run_defs2)
  have coll: "collectFilesToCreate gateway_timeout_env host_plain = ([], [], host_plain)"
    by (simp add: run_defs2)
  have cmds: "commands (rd host_plain) = map Some []"
    by (simp add: run_defs2)
  have valid: "([] :: string list) = [] \<or>
               (user (rd host_plain) \<noteq> '''' \<and> private_key (rd host_plain) \<noteq> '''')"
    by simp
  have failed: "Create gateway_timeout_env (now host_plain) (name (rd host_plain))
                  (createOptions (rd host_plain))
                = CreateErr None (Some (Response 504)) (SdkError ''gateway timeout'')"
    by (simp add: run_defs2)
  have found: "GetAllInstances gateway_timeout_env
                 (now (emit (EvCreate (name (rd host_plain)) (createOptions (rd host_plain))) host_plain))
               = Inr [sample_details ''i-7'' ''other'', listed_host] \<and>
               find (\<lambda>i. NameTag i = name (rd host_plain)) [sample_details ''i-7'' ''other'', listed_host]
               = Some listed_host"
    by (simp add: run_defs2)
  from ambiguous_create_failure_recovers_by_name [OF client coll cmds valid failed refl] found
  have "resourceContainerHostCreate gateway_timeout_env host_plain =
          Inr (provisionHost gateway_timeout_env (InstanceID listed_host)
                 (PrivateAddress listed_host) [] []
                 (emit EvGetAllInstances
                    (emit (EvCreate (name (rd host_plain)) (createOptions (rd host_plain)))
                       host_plain)))"
    by blast
  then show ?thesis by (simp add: run_defs2)
qed

section \<open>Container host: the compensating destroy\<close>

lemma destroyed_lastI:
  assumes "trace st1 = trace st @ evs" and "res = (FromErr e, emit (EvDestroy nm) st1)"
  shows "destroyed_before_error nm st res"
proof -
  have "issued st (snd res) = evs @ [EvDestroy nm]"
    using assms by (intro issued_append) simp
  with assms(2) show ?thesis by auto
qed

lemma wait_failure_destroys:
  assumes after: "rd st1 = rd st" "\<exists>evs. trace st1 = trace st @ evs \<and> (\<forall>e\<in>set evs. \<not> is_destroy e)"
    and ci: "createInstance env st1 = (Inr (iid, ip), st2)"
    and res: "res = provisionHost env iid ip files cmds st2"
    and wait: "waitForHost env (name (rd st)) (polls_before_timeout env) (SetId iid st2)
               = (Some werr, polled (name (rd st)) k (SetId iid st2))"
  shows "destroyed_before_error (name (rd st)) st res"
proof -
  from createInstance_continues [OF ci] after obtain evs where
    rd2: "rd st2 = rd st" and tr2: "trace st2 = trace st @ evs" by auto
  from wait rd2 have "waitForHost env (name (rd st2)) (polls_before_timeout env) (SetId iid st2)
               = (Some werr, polled (name (rd st)) k (SetId iid st2))" by (simp only:)
  from provisionHost_wait_failed [OF this] res rd2
  have r: "res = (FromErr (Errorf ''error waiting for instance '%s' to become ready: %s''
                 [ArgS iid, ArgE werr]),
            emit (EvDestroy (name (rd st))) (polled (name (rd st)) k (SetId iid st2)))"
    by (simp only:)
  have "trace (polled (name (rd st)) k (SetId iid st2))
          = trace st @ (evs @ replicate k (EvGetDeploymentState (name (rd st))))"
    using tr2 by simp
  from destroyed_lastI [OF this r] show ?thesis .
qed

text \<open>
  The paths of a creation that has passed validation, on the result \<open>res\<close> it returns.
\<close>

lemma creation_failure_paths:
  assumes client: "CartelClient env = None"
    and coll: "collectFilesToCreate env st = (files, [], st1)"
    and cmds: "commands (rd st) = map Some cmds"
    and valid: "cmds = [] \<or> (user (rd st) \<noteq> '''' \<and> private_key (rd st) \<noteq> '''')"
    and nm: "nm = name (rd st)"
    and res: "resourceContainerHostCreate env st = Inr res"
  shows "(Create env (now st1) nm (createOptions (rd st)) = CreateErr ch resp err \<and>
            (resp = None \<or> (\<exists>c r. ch = Some c \<and> resp = Some r \<and> StatusCode r < 500)) \<longrightarrow>
            destroyed_before_error nm st res) \<and>
         (Create env (now st1) nm (createOptions (rd st)) = CreateErr ch (Some r) err \<and>
            (ch = None \<or> 500 \<le> StatusCode r) \<and>
            (case GetAllInstances env (Suc (now st1)) of
               Inl e \<Rightarrow> True
             | Inr instances \<Rightarrow> find (\<lambda>i. NameTag i = nm) instances = None) \<longrightarrow>
            destroyed_before_error nm st res) \<and>
         (createInstance env st1 = (Inr (iid, ip), st2) \<and> pending_until env nm st2 k \<and>
            k < polls_before_timeout env \<and>
            GetDeploymentState env (now st2 + k) nm = Inr s \<and>
            s \<in> {''failed'', ''terminated'', ''shutting-down''} \<longrightarrow>
            destroyed_before_error nm st res) \<and>
         (createInstance env st1 = (Inr (iid, ip), st2) \<and>
            pending_until env nm st2 (polls_before_timeout env) \<longrightarrow>
            destroyed_before_error nm st res) \<and>
         (createInstance env st1 = (Inr (iid, ip), st2) \<and> pending_until env nm st2 k \<and>
            k < polls_before_timeout env \<and>
            GetDeploymentState env (now st2 + k) nm = Inr ''succeeded'' \<longrightarrow>
            res = bootstrapHost env ip files cmds (polled nm (Suc k) (SetId iid st2)) \<and>
            (\<forall>e\<in>set (issued st (snd res)). \<not> is_destroy e))"
proof -
  note after = create_after_validation [OF client coll cmds valid]
  from after(2) obtain evs1 where
    tr1: "trace st1 = trace st @ evs1" and kind1: "\<forall>e\<in>set evs1. \<not> is_destroy e" by blast
  let ?c = "EvCreate nm (createOptions (rd st))"
  have p1: "destroyed_before_error nm st res"
    if f: "Create env (now st1) nm (createOptions (rd st)) = CreateErr ch resp err"
      and u: "resp = None \<or> (\<exists>c r. ch = Some c \<and> resp = Some r \<and> StatusCode r < 500)"
  proof -
    from f after(1) nm
    have f1: "Create env (now st1) (name (rd st1)) (createOptions (rd st1)) = CreateErr ch resp err"
      by simp
    from u obtain e where "createInstance env st1 = (Inl (FromErr e), emit (EvDestroy nm) (emit ?c st1))"
    proof
      assume "resp = None"
      with createInstance_no_response [OF f1 [unfolded this]] after(1) nm that show ?thesis
        by simp
    next
      assume "\<exists>c r. ch = Some c \<and> resp = Some r \<and> StatusCode r < 500"
      then obtain c r where cr: "ch = Some c" "resp = Some r" "StatusCode r < 500" by blast
      from createInstance_rejected [OF f1 [unfolded cr(1) cr(2)] cr(3)] after(1) nm that
      show ?thesis by simp
    qed
    from after(3) [OF this] res have r: "res = (FromErr e, emit (EvDestroy nm) (emit ?c st1))"
      by simp
    have "trace (emit ?c st1) = trace st @ (evs1 @ [?c])" using tr1 by simp
    from destroyed_lastI [OF this r] show ?thesis .
  qed
  have p2: "destroyed_before_error nm st res"
    if f: "Create env (now st1) nm (createOptions (rd st)) = CreateErr ch (Some r) err"
      and u: "ch = None \<or> 500 \<le> StatusCode r"
      and none: "case GetAllInstances env (Suc (now st1)) of
               Inl e \<Rightarrow> True
             | Inr instances \<Rightarrow> find (\<lambda>i. NameTag i = nm) instances = None"
  proof -
    from f after(1) nm
    have f1: "Create env (now st1) (name (rd st1)) (createOptions (rd st1)) = CreateErr ch (Some r) err"
      by simp
    from none have "case GetAllInstances env (now (emit ?c st1)) of
               Inl e \<Rightarrow> True
             | Inr instances \<Rightarrow> find (\<lambda>i. NameTag i = nm) instances = None" by simp
    from createInstance_ambiguous [OF f1 u] recoverInstance_not_found [OF this, of r err] after(1) nm
    have "createInstance env st1 =
            (Inl (FromErr (Errorf ''create error (status=%d): %w'' [ArgD (StatusCode r), ArgE err])),
             emit (EvDestroy nm) (emit EvGetAllInstances (emit ?c st1)))"
      by simp
    from after(3) [OF this] res
    have r: "res = (FromErr (Errorf ''create error (status=%d): %w'' [ArgD (StatusCode r), ArgE err]),
                    emit (EvDestroy nm) (emit EvGetAllInstances (emit ?c st1)))"
      by simp
    have "trace (emit EvGetAllInstances (emit ?c st1)) = trace st @ (evs1 @ [?c, EvGetAllInstances])"
      using tr1 by simp
    from destroyed_lastI [OF this r] show ?thesis .
  qed
  have p3: "destroyed_before_error nm st res"
    if ci: "createInstance env st1 = (Inr (iid, ip), st2)" and pend: "pending_until env nm st2 k"
      and k: "k < polls_before_timeout env"
      and s: "GetDeploymentState env (now st2 + k) nm = Inr s"
        "s \<in> {''failed'', ''terminated'', ''shutting-down''}"
  proof -
    from pend have pend': "pending_until env nm (SetId iid st2) k" by simp
    from s(1) have s': "GetDeploymentState env (now (SetId iid st2) + k) nm = Inr s" by simp
    from wait_outcomes(3) [OF pend' k s' s(2)]
    have "waitForHost env (name (rd st)) (polls_before_timeout env) (SetId iid st2)
               = (Some (Errorf ''failed to reach target state, reason: %s'' [ArgS s]),
                  polled (name (rd st)) (Suc k) (SetId iid st2))"
      unfolding nm .
    from wait_failure_destroys [OF after(1) after(2) ci _ this, of res files cmds]
      after(4) [OF ci] res nm
    show ?thesis by simp
  qed
  have p4: "destroyed_before_error nm st res"
    if ci: "createInstance env st1 = (Inr (iid, ip), st2)"
      and pend: "pending_until env nm st2 (polls_before_timeout env)"
  proof -
    from pend have pend': "pending_until env nm (SetId iid st2) (polls_before_timeout env)"
      by simp
    from wait_outcomes(1) [OF pend' refl]
    have "waitForHost env (name (rd st)) (polls_before_timeout env) (SetId iid st2)
               = (Some TimeoutError,
                  polled (name (rd st)) (polls_before_timeout env) (SetId iid st2))"
      unfolding nm .
    from wait_failure_destroys [OF after(1) after(2) ci _ this, of res files cmds]
      after(4) [OF ci] res nm
    show ?thesis by simp
  qed
  have p5: "res = bootstrapHost env ip files cmds (polled nm (Suc k) (SetId iid st2)) \<and>
            (\<forall>e\<in>set (issued st (snd res)). \<not> is_destroy e)"
    if ci: "createInstance env st1 = (Inr (iid, ip), st2)" and pend: "pending_until env nm st2 k"
      and k: "k < polls_before_timeout env"
      and s: "GetDeploymentState env (now st2 + k) nm = Inr ''succeeded''"
  proof -
    from createInstance_continues [OF ci] after(1) obtain evs2 where
      rd2: "rd st2 = rd st" and tr2: "trace st2 = trace st1 @ evs2"
      and kind2: "\<forall>e\<in>set evs2. \<not> is_destroy e" by auto
    from pend have pend': "pending_until env nm (SetId iid st2) k" by simp
    from s have s': "GetDeploymentState env (now (SetId iid st2) + k) nm = Inr ''succeeded''"
      by simp
    from wait_outcomes(2) [OF pend' k s'] rd2 nm
    have "waitForHost env (name (rd st2)) (polls_before_timeout env) (SetId iid st2)
               = (None, polled nm (Suc k) (SetId iid st2))"
      by (simp only:)
    from provisionHost_wait_succeeded [OF this] after(4) [OF ci] res
    have r: "res = bootstrapHost env ip files cmds (polled nm (Suc k) (SetId iid st2))"
      by (simp only: sum.inject)
    from bootstrap_trace [of env ip files cmds "polled nm (Suc k) (SetId iid st2)"]
    obtain evs3 where
      tr3: "trace (snd res) = trace (polled nm (Suc k) (SetId iid st2)) @ evs3"
      and kind3: "\<forall>e\<in>set evs3. \<not> is_destroy e"
      unfolding r by blast
    have "trace (snd res) =
            trace st @ (evs1 @ evs2 @ replicate (Suc k) (EvGetDeploymentState nm) @ evs3)"
      using tr1 tr2 tr3 by simp
    then have "issued st (snd res) =
                 evs1 @ evs2 @ replicate (Suc k) (EvGetDeploymentState nm) @ evs3"
      by (rule issued_append)
    with kind1 kind2 kind3 have "\<forall>e\<in>set (issued st (snd res)). \<not> is_destroy e"
      by auto
    with r show ?thesis by simp
  qed
  from p1 p2 p3 p4 p5 show ?thesis by blast
qed


lemmas run_defs3 = run_defs2 failing_state_env_def never_ready_env_def rejecting_env_def


end
